theory Spec2Isabelle
  imports Main "HOL-Library.Word" "HOL-Library.Sublist" "HOL-Library.Code_Target_Numeral"
begin

section \<open>Go strings as byte lists\<close>

text \<open>
  A Go \<open>string\<close> is a sequence of bytes; it is modelled as \<open>string\<close> (a list of 8-bit
  characters). \<open>len\<close>, \<open>strings.HasPrefix\<close>, \<open>strings.HasSuffix\<close>, \<open>strings.Index\<close>
  and slicing work on bytes. \<open>strings.Fields\<close> and \<open>strings.TrimSpace\<close> decode UTF-8 and
  test each rune with \<open>unicode.IsSpace\<close>; the white-space runes are listed below by their
  UTF-8 encodings. No byte of such an encoding after the first is an ASCII byte, and the
  first byte of each is never a UTF-8 continuation byte, so the decoder meets a white-space
  rune exactly where one of these byte sequences starts.
\<close>

definition spaceSeqs :: "string list" where
  "spaceSeqs =
    [[CHR 0x09], [CHR 0x0A], [CHR 0x0B], [CHR 0x0C], [CHR 0x0D], [CHR 0x20],
     [CHR 0xC2, CHR 0x85], [CHR 0xC2, CHR 0xA0],
     [CHR 0xE1, CHR 0x9A, CHR 0x80],
     [CHR 0xE2, CHR 0x80, CHR 0x80], [CHR 0xE2, CHR 0x80, CHR 0x81],
     [CHR 0xE2, CHR 0x80, CHR 0x82], [CHR 0xE2, CHR 0x80, CHR 0x83],
     [CHR 0xE2, CHR 0x80, CHR 0x84], [CHR 0xE2, CHR 0x80, CHR 0x85],
     [CHR 0xE2, CHR 0x80, CHR 0x86], [CHR 0xE2, CHR 0x80, CHR 0x87],
     [CHR 0xE2, CHR 0x80, CHR 0x88], [CHR 0xE2, CHR 0x80, CHR 0x89],
     [CHR 0xE2, CHR 0x80, CHR 0x8A],
     [CHR 0xE2, CHR 0x80, CHR 0xA8], [CHR 0xE2, CHR 0x80, CHR 0xA9],
     [CHR 0xE2, CHR 0x80, CHR 0xAF],
     [CHR 0xE2, CHR 0x81, CHR 0x9F],
     [CHR 0xE3, CHR 0x80, CHR 0x80]]"

definition spaceWidth :: "string \<Rightarrow> nat" where
  \<comment> \<open>width in bytes of the white-space rune at the head of the string, 0 if there is none\<close>
  "spaceWidth s = (case find (\<lambda>p. prefix p s) spaceSeqs of None \<Rightarrow> 0 | Some p \<Rightarrow> length p)"

definition spaceWidthEnd :: "string \<Rightarrow> nat" where
  \<comment> \<open>width in bytes of the white-space rune at the end of the string, 0 if there is none\<close>
  "spaceWidthEnd s = (case find (\<lambda>p. suffix p s) spaceSeqs of None \<Rightarrow> 0 | Some p \<Rightarrow> length p)"

function Fields_from :: "string \<Rightarrow> string \<Rightarrow> string list" where
  "Fields_from cur [] = (if cur = [] then [] else [cur])"
| "Fields_from cur (c # cs) =
     (if 0 < spaceWidth (c # cs)
      then (if cur = [] then [] else [cur]) @ Fields_from [] (drop (spaceWidth (c # cs)) (c # cs))
      else Fields_from (cur @ [c]) cs)"
  by pat_completeness auto
termination
  by (relation "measure (\<lambda>(cur, s). length s)") auto

definition Fields :: "string \<Rightarrow> string list" where
  \<comment> \<open>\<open>strings.Fields\<close>: the maximal runs of bytes between white-space runes\<close>
  "Fields s = Fields_from [] s"

fun Join :: "string list \<Rightarrow> string \<Rightarrow> string" where
  "Join [] sep = []"
| "Join [x] sep = x"
| "Join (x # y # ys) sep = x @ sep @ Join (y # ys) sep"

function TrimLeftSpace :: "string \<Rightarrow> string" where
  "TrimLeftSpace [] = []"
| "TrimLeftSpace (c # cs) =
     (if 0 < spaceWidth (c # cs) then TrimLeftSpace (drop (spaceWidth (c # cs)) (c # cs))
      else c # cs)"
  by pat_completeness auto
termination
  by (relation "measure length") auto

function TrimRightSpace :: "string \<Rightarrow> string" where
  "TrimRightSpace s =
     (if s \<noteq> [] \<and> 0 < spaceWidthEnd s
      then TrimRightSpace (take (length s - spaceWidthEnd s) s) else s)"
  by pat_completeness auto
termination
  by (relation "measure length") auto

definition TrimSpace :: "string \<Rightarrow> string" where
  "TrimSpace s = TrimRightSpace (TrimLeftSpace s)"

fun IndexAux :: "string \<Rightarrow> string \<Rightarrow> nat \<Rightarrow> int" where
  "IndexAux [] sub i = (if sub = [] then int i else -1)"
| "IndexAux (c # cs) sub i = (if prefix sub (c # cs) then int i else IndexAux cs sub (Suc i))"

definition Index :: "string \<Rightarrow> string \<Rightarrow> int" where
  \<comment> \<open>\<open>strings.Index\<close>: byte offset of the first occurrence, -1 if there is none\<close>
  "Index s sub = IndexAux s sub 0"

definition Contains :: "string \<Rightarrow> string \<Rightarrow> bool" where
  "Contains s sub \<longleftrightarrow> 0 \<le> Index s sub"

definition HasPrefix :: "string \<Rightarrow> string \<Rightarrow> bool" where
  "HasPrefix s p \<longleftrightarrow> prefix p s"

definition HasSuffix :: "string \<Rightarrow> string \<Rightarrow> bool" where
  "HasSuffix s p \<longleftrightarrow> suffix p s"

definition TrimSuffix :: "string \<Rightarrow> string \<Rightarrow> string" where
  "TrimSuffix s p = (if HasSuffix s p then take (length s - length p) s else s)"

definition TrimByte :: "string \<Rightarrow> char \<Rightarrow> string" where
  \<comment> \<open>\<open>strings.Trim\<close> with a cutset of one ASCII byte\<close>
  "TrimByte s c = rev (dropWhile (\<lambda>x. x = c) (rev (dropWhile (\<lambda>x. x = c) s)))"

subsection \<open>strconv\<close>

definition isDigit :: "char \<Rightarrow> bool" where
  "isDigit c \<longleftrightarrow> 48 \<le> (of_char c :: nat) \<and> (of_char c :: nat) \<le> 57"

definition digitVal :: "char \<Rightarrow> nat" where
  "digitVal c = of_char c - 48"

definition digitChar :: "nat \<Rightarrow> char" where
  "digitChar d = char_of (48 + d)"

definition decimalValue :: "string \<Rightarrow> nat" where
  "decimalValue s = foldl (\<lambda>a c. a * 10 + digitVal c) 0 s"

definition ParseUint :: "string \<Rightarrow> nat \<Rightarrow> nat option" where
  \<comment> \<open>\<open>strconv.ParseUint(s, 10, bitSize)\<close>; \<open>None\<close> is a non-nil error (syntax or range)\<close>
  "ParseUint s bitSize =
     (if s = [] then None
      else if \<not> list_all isDigit s then None
      else if decimalValue s < 2 ^ bitSize then Some (decimalValue s) else None)"

fun FormatUint :: "nat \<Rightarrow> string" where
  "FormatUint n = (if n < 10 then [digitChar n] else FormatUint (n div 10) @ [digitChar (n mod 10)])"

declare FormatUint.simps [simp del]

section \<open>Records (internal/knot/types.go)\<close>

definition RecordTypeA :: string where "RecordTypeA = ''A''"
definition RecordTypeAAAA :: string where "RecordTypeAAAA = ''AAAA''"
definition RecordTypePTR :: string where "RecordTypePTR = ''PTR''"
definition RecordTypeCNAME :: string where "RecordTypeCNAME = ''CNAME''"
definition RecordTypeMX :: string where "RecordTypeMX = ''MX''"
definition RecordTypeTXT :: string where "RecordTypeTXT = ''TXT''"
definition RecordTypeNS :: string where "RecordTypeNS = ''NS''"
definition RecordTypeSOA :: string where "RecordTypeSOA = ''SOA''"

record DNSRecord =
  Name :: string
  Type :: string
  TTL :: "32 word"
  Data :: string
  Priority :: "16 word option"

record UpdateRecordRequest =
  updTTL :: "32 word option"
  updData :: "string option"
  updPriority :: "16 word option"

datatype parse_error =
    InvalidRecordFormat string
  | InvalidTTL string
  | InvalidMXFormat string
  | InvalidMXPriority string

definition ToKnotFormat :: "DNSRecord \<Rightarrow> string" where
  "ToKnotFormat r =
     Join ([Name r, FormatUint (unat (TTL r)), Type r]
           @ (case Priority r of
                Some p \<Rightarrow> if Type r = RecordTypeMX then [FormatUint (unat p)] else []
              | None \<Rightarrow> [])
           @ [Data r]) '' ''"

definition ParseKnotRecord :: "string \<Rightarrow> parse_error + DNSRecord" where
  "ParseKnotRecord line =
     (let parts = Fields line in
      if length parts < 4 then Inl (InvalidRecordFormat line)
      else
        let record = \<lparr>Name = parts ! 0, Type = parts ! 2, TTL = 0, Data = [], Priority = None\<rparr> in
        case ParseUint (parts ! 1) 32 of
          None \<Rightarrow> Inl (InvalidTTL (parts ! 1))
        | Some ttl \<Rightarrow>
            let record = record\<lparr>TTL := of_nat ttl\<rparr> in
            if Type record = RecordTypeMX then
              (if length parts < 5 then Inl (InvalidMXFormat line)
               else case ParseUint (parts ! 3) 16 of
                      None \<Rightarrow> Inl (InvalidMXPriority (parts ! 3))
                    | Some priority \<Rightarrow>
                        Inr (record\<lparr>Priority := Some (of_nat priority), Data := parts ! 4\<rparr>))
            else Inr (record\<lparr>Data := Join (drop 3 parts) '' ''\<rparr>))"

subsection \<open>The second copy of the codec (src/unnamed/part_001)\<close>

definition ToKnotFormat_part001 :: "DNSRecord \<Rightarrow> string" where
  "ToKnotFormat_part001 r =
     Join ([Name r, FormatUint (unat (TTL r)), ''IN'', Type r]
           @ (case Priority r of
                Some p \<Rightarrow> if Type r = RecordTypeMX then [FormatUint (unat p)] else []
              | None \<Rightarrow> [])
           @ [Data r]) '' ''"

definition stripZonePrefix :: "string \<Rightarrow> string" where
  \<comment> \<open>the first lines of the second copy's parser: trim, then drop a leading \<open>[zone]\<close>\<close>
  "stripZonePrefix line0 =
     (let line = TrimSpace line0 in
      if HasPrefix line ''['' \<and> Contains line '']'' then
        (let bracketEnd = Index line '']'' in
         if bracketEnd \<noteq> -1 \<and> bracketEnd < int (length line) - 1
         then TrimSpace (drop (nat (bracketEnd + 1)) line)
         else line)
      else line)"

definition ParseKnotRecord_part001 :: "string \<Rightarrow> parse_error + DNSRecord" where
  "ParseKnotRecord_part001 line0 =
     (let line = stripZonePrefix line0;
          parts = Fields line in
      if length parts < 4 then Inl (InvalidRecordFormat line)
      else
        let name = parts ! 0;
            ttlStr = parts ! 1;
            (recordType, dataStart) =
              (if 5 \<le> length parts \<and> (parts ! 2 = ''IN'' \<or> parts ! 2 = ''CH'' \<or> parts ! 2 = ''HS'')
               then (parts ! 3, 4) else (parts ! 2, 3));
            record = \<lparr>Name = name, Type = recordType, TTL = 0, Data = [], Priority = None\<rparr> in
        case ParseUint ttlStr 32 of
          None \<Rightarrow> Inl (InvalidTTL ttlStr)
        | Some ttl \<Rightarrow>
            let record = record\<lparr>TTL := of_nat ttl\<rparr> in
            if Type record = RecordTypeMX then
              (if length parts < dataStart + 2 then Inl (InvalidMXFormat line)
               else case ParseUint (parts ! dataStart) 16 of
                      None \<Rightarrow> Inl (InvalidMXPriority (parts ! dataStart))
                    | Some priority \<Rightarrow>
                        Inr (record\<lparr>Priority := Some (of_nat priority),
                                    Data := Join (drop (dataStart + 1) parts) '' ''\<rparr>))
            else if dataStart < length parts
              then Inr (record\<lparr>Data := Join (drop dataStart parts) '' ''\<rparr>)
              else Inr record)"

section \<open>Validation (internal/knot/types.go)\<close>

definition upperByte :: "char \<Rightarrow> char" where
  "upperByte c = (if 97 \<le> (of_char c :: nat) \<and> (of_char c :: nat) \<le> 122
                  then char_of ((of_char c :: nat) - 32) else c)"

fun ToUpper :: "string \<Rightarrow> string" where
  \<comment> \<open>\<open>strings.ToUpper\<close>. ASCII letters are mapped bytewise. Two runes outside ASCII have an
     ASCII upper case: U+0131 (bytes C4 B1) gives \<open>I\<close> and U+017F (bytes C5 BF) gives \<open>S\<close>.
     Every other rune outside ASCII, and every invalid byte, is mapped by Go to a rune outside
     ASCII; the model leaves those bytes as they are, which does not change whether the
     result equals an ASCII string.\<close>
  "ToUpper [] = []"
| "ToUpper [c] = [upperByte c]"
| "ToUpper (c # d # cs) =
     (if c = CHR 0xC4 \<and> d = CHR 0xB1 then CHR ''I'' # ToUpper cs
      else if c = CHR 0xC5 \<and> d = CHR 0xBF then CHR ''S'' # ToUpper cs
      else upperByte c # ToUpper (d # cs))"

definition ValidRecordTypes :: "string list" where
  "ValidRecordTypes =
     [RecordTypeA, RecordTypeAAAA, RecordTypePTR, RecordTypeCNAME, RecordTypeMX,
      RecordTypeTXT, RecordTypeNS]"

definition IsValidRecordType :: "string \<Rightarrow> bool" where
  "IsValidRecordType recordType \<longleftrightarrow>
     (let rt = ToUpper recordType in list_ex (\<lambda>valid. rt = valid) ValidRecordTypes)"

datatype ipform = IPv4form | IPv6form

datatype error =
    EmptyName
  | InvalidType string
  | InvalidData error
  | InvalidIPv4 string
  | InvalidIPv6 string
  | EmptyData string
  | PriorityRequired
  | EmptyTXT
  | KnotcFailed string string
  | ZoneNotAllowed string
  | FailedRead string error
  | RecordNotFound string string string
  | InvalidRecord error
  | FailedBegin string error
  | FailedAdd string error
  | FailedCommit string error
  | NotFoundWrap error
  | InvalidUpdated error
  | FailedRemoveOld string error
  | FailedAddUpdated string error
  | FailedRemove string error

text \<open>
  \<open>net.ParseIP\<close> is a parameter of the model: \<open>ParseIP s = None\<close> stands for a nil result,
  \<open>Some IPv4form\<close> for an address whose \<open>To4()\<close> is not nil, \<open>Some IPv6form\<close> for any other
  address. \<open>Validate\<close> has a pointer receiver and changes the record in place, also when it
  fails; the model returns the error (if any) together with the record as it is left.
\<close>

definition validateData :: "(string \<Rightarrow> ipform option) \<Rightarrow> DNSRecord \<Rightarrow> error option \<times> DNSRecord" where
  "validateData ParseIP r =
     (if Type r = RecordTypeA then
        (if ParseIP (Data r) = None \<or> ParseIP (Data r) \<noteq> Some IPv4form
         then (Some (InvalidIPv4 (Data r)), r) else (None, r))
      else if Type r = RecordTypeAAAA then
        (if ParseIP (Data r) = None \<or> ParseIP (Data r) = Some IPv4form
         then (Some (InvalidIPv6 (Data r)), r) else (None, r))
      else if Type r = RecordTypePTR \<or> Type r = RecordTypeCNAME \<or> Type r = RecordTypeNS then
        (if Data r = [] then (Some (EmptyData (Type r)), r)
         else if \<not> HasSuffix (Data r) ''.'' then (None, r\<lparr>Data := Data r @ ''.''\<rparr>)
         else (None, r))
      else if Type r = RecordTypeMX then
        (if Priority r = None then (Some PriorityRequired, r)
         else if \<not> HasSuffix (Data r) ''.'' then (None, r\<lparr>Data := Data r @ ''.''\<rparr>)
         else (None, r))
      else if Type r = RecordTypeTXT then
        (if Data r = [] then (Some EmptyTXT, r)
         else if \<not> HasPrefix (Data r) [CHR 0x22] \<or> \<not> HasSuffix (Data r) [CHR 0x22]
           then (None, r\<lparr>Data := [CHR 0x22] @ TrimByte (Data r) (CHR 0x22) @ [CHR 0x22]\<rparr>)
         else (None, r))
      else (None, r))"

definition Validate :: "(string \<Rightarrow> ipform option) \<Rightarrow> DNSRecord \<Rightarrow> error option \<times> DNSRecord" where
  "Validate ParseIP r =
     (if Name r = [] then (Some EmptyName, r)
      else if \<not> IsValidRecordType (Type r) then (Some (InvalidType (Type r)), r)
      else
        let r = (if TTL r = 0 then r\<lparr>TTL := 300\<rparr> else r) in
        case validateData ParseIP r of
          (Some err, r) \<Rightarrow> (Some (InvalidData err), r)
        | (None, r) \<Rightarrow> (None, r))"

section \<open>The client (internal/knot/client.go)\<close>

record Client =
  knotcPath :: string
  socketPath :: string
  allowedZones :: "string list"

definition normalizeZoneName :: "string \<Rightarrow> string" where
  "normalizeZoneName zone = (if \<not> HasSuffix zone ''.'' then zone @ ''.'' else zone)"

definition IsZoneAllowed :: "Client \<Rightarrow> string \<Rightarrow> bool" where
  "IsZoneAllowed c zone \<longleftrightarrow>
     (if length (allowedZones c) = 0 then True
      else
        let normalizedZone = normalizeZoneName zone in
        list_ex (\<lambda>allowedZone.
                   let normalizedAllowed = normalizeZoneName allowedZone in
                   normalizedZone = normalizedAllowed
                   \<or> HasSuffix normalizedZone (''.'' @ normalizedAllowed))
                (allowedZones c))"

definition IsZoneAllowed_part002 :: "Client \<Rightarrow> string \<Rightarrow> bool" where
  \<comment> \<open>the copy of the client in src/unnamed/part_002, which compares the strings as given\<close>
  "IsZoneAllowed_part002 c zone \<longleftrightarrow>
     (if length (allowedZones c) = 0 then True
      else list_ex (\<lambda>allowedZone. zone = allowedZone \<or> HasSuffix zone (''.'' @ allowedZone))
                   (allowedZones c))"

subsection \<open>The control plane\<close>

text \<open>
  \<open>knotc\<close> is an external process. The model takes it as a parameter: \<open>CombinedOutput\<close>
  gets the path of the binary, the argument list and the state of the outside world, and
  returns what \<open>exec.Cmd.CombinedOutput\<close> returns (the output, and the error if the
  command failed) with the new state of the world. Every command that is run is appended to
  \<open>calls\<close> with its result, so that the sequence of commands issued by an operation can
  be read off the final state. Log messages are not modelled.
\<close>

datatype exec_result = ExecOK string | ExecFail string string

record 'w platform =
  CombinedOutput :: "string \<Rightarrow> string list \<Rightarrow> 'w \<Rightarrow> exec_result \<times> 'w"
  ParseIP :: "string \<Rightarrow> ipform option"

record 'w state =
  world :: 'w
  calls :: "(string list \<times> exec_result) list"

definition knotcArgs :: "Client \<Rightarrow> string list \<Rightarrow> string list" where
  "knotcArgs c args = (if socketPath c \<noteq> [] then [''-s'', socketPath c] else []) @ args"

definition executeKnotc ::
  "'w platform \<Rightarrow> Client \<Rightarrow> string list \<Rightarrow> 'w state \<Rightarrow> (error + string) \<times> 'w state" where
  "executeKnotc pf c args st =
     (let cmdArgs = knotcArgs c args;
          (res, w) = CombinedOutput pf (knotcPath c) cmdArgs (world st);
          st = \<lparr>world = w, calls = calls st @ [(cmdArgs, res)]\<rparr>
      in case res of
           ExecFail err output \<Rightarrow> (Inl (KnotcFailed err output), st)
         | ExecOK output \<Rightarrow> (Inr (TrimSpace output), st))"

subsection \<open>Reading records\<close>

definition MaxScanTokenSize :: nat where
  "MaxScanTokenSize = 64 * 1024"

definition dropCR :: "string \<Rightarrow> string" where
  "dropCR l = (if l \<noteq> [] \<and> last l = CHR 0x0D then butlast l else l)"

fun ScanLines_from :: "string \<Rightarrow> string \<Rightarrow> string list" where
  \<comment> \<open>the tokens of a \<open>bufio.Scanner\<close> with the default split function and buffer: the
     scanner stops, and the loop with it, at a line that does not fit the buffer\<close>
  "ScanLines_from cur [] =
     (if cur = [] \<or> MaxScanTokenSize \<le> length cur then [] else [dropCR cur])"
| "ScanLines_from cur (c # cs) =
     (if c = CHR 0x0A
      then (if MaxScanTokenSize \<le> length cur then [] else dropCR cur # ScanLines_from [] cs)
      else ScanLines_from (cur @ [c]) cs)"

definition ScanLines :: "string \<Rightarrow> string list" where
  "ScanLines s = ScanLines_from [] s"

fun recordsOfLines :: "string list \<Rightarrow> DNSRecord list" where
  "recordsOfLines [] = []"
| "recordsOfLines (l # ls) =
     (let line = TrimSpace l in
      if line = [] \<or> HasPrefix line '';'' then recordsOfLines ls
      else case ParseKnotRecord line of
             Inl err \<Rightarrow> recordsOfLines ls
           | Inr record \<Rightarrow> record # recordsOfLines ls)"

definition GetRecords ::
  "'w platform \<Rightarrow> Client \<Rightarrow> string \<Rightarrow> 'w state \<Rightarrow> (error + DNSRecord list) \<times> 'w state" where
  "GetRecords pf c zone st =
     (if \<not> IsZoneAllowed c zone then (Inl (ZoneNotAllowed zone), st)
      else
        let normalizedZone = normalizeZoneName zone in
        case executeKnotc pf c [''zone-read'', normalizedZone] st of
          (Inl err, st) \<Rightarrow> (Inl (FailedRead zone err), st)
        | (Inr output, st) \<Rightarrow> (Inr (recordsOfLines (ScanLines output)), st))"

definition GetRecord ::
  "'w platform \<Rightarrow> Client \<Rightarrow> string \<Rightarrow> string \<Rightarrow> string \<Rightarrow> 'w state
     \<Rightarrow> (error + DNSRecord) \<times> 'w state" where
  "GetRecord pf c zone name recordType st =
     (if \<not> IsZoneAllowed c zone then (Inl (ZoneNotAllowed zone), st)
      else
        case GetRecords pf c zone st of
          (Inl err, st) \<Rightarrow> (Inl err, st)
        | (Inr records, st) \<Rightarrow>
            (case find (\<lambda>record. Name record = name \<and> Type record = recordType) records of
               Some record \<Rightarrow> (Inr record, st)
             | None \<Rightarrow> (Inl (RecordNotFound name recordType zone), st)))"

subsection \<open>Mutating operations\<close>

definition relativeName :: "string \<Rightarrow> string \<Rightarrow> string" where
  \<comment> \<open>the owner name passed to \<open>zone-set\<close>: the record name without the zone suffix\<close>
  "relativeName recordName normalizedZone =
     (if HasSuffix recordName (''.'' @ normalizedZone)
      then TrimSuffix recordName (''.'' @ normalizedZone)
      else if HasSuffix recordName normalizedZone
      then TrimSuffix (TrimSuffix recordName normalizedZone) ''.''
      else recordName)"

definition zoneSetArgs :: "string \<Rightarrow> DNSRecord \<Rightarrow> string list" where
  "zoneSetArgs normalizedZone record =
     [''zone-set'', normalizedZone, relativeName (Name record) normalizedZone,
      FormatUint (unat (TTL record)), Type record]
     @ (case Priority record of
          Some p \<Rightarrow> if Type record = RecordTypeMX then [FormatUint (unat p)] else []
        | None \<Rightarrow> [])
     @ [Data record]"

definition sameValues :: "DNSRecord \<Rightarrow> DNSRecord \<Rightarrow> bool" where
  \<comment> \<open>the comparison of the existing record with the new one in \<open>CreateRecord\<close>\<close>
  "sameValues existingRecord record \<longleftrightarrow>
     TTL existingRecord = TTL record \<and> Data existingRecord = Data record \<and>
     ((Priority existingRecord = None \<and> Priority record = None) \<or>
      (Priority existingRecord \<noteq> None \<and> Priority record \<noteq> None \<and>
       the (Priority existingRecord) = the (Priority record)))"

definition CreateRecord ::
  "'w platform \<Rightarrow> Client \<Rightarrow> string \<Rightarrow> DNSRecord \<Rightarrow> 'w state
     \<Rightarrow> error option \<times> DNSRecord \<times> 'w state" where
  "CreateRecord pf c zone record0 st0 =
     (if \<not> IsZoneAllowed c zone then (Some (ZoneNotAllowed zone), record0, st0)
      else
        case Validate (ParseIP pf) record0 of
          (Some err, record) \<Rightarrow> (Some (InvalidRecord err), record, st0)
        | (None, record) \<Rightarrow>
            let (existing, st1) = GetRecord pf c zone (Name record) (Type record) st0 in
            if (case existing of Inr existingRecord \<Rightarrow> sameValues existingRecord record
                               | Inl err \<Rightarrow> False)
            then (None, record, st1)
            else
              let normalizedZone = normalizeZoneName zone in
              case executeKnotc pf c [''zone-begin'', normalizedZone] st1 of
                (Inl err, st2) \<Rightarrow> (Some (FailedBegin zone err), record, st2)
              | (Inr out, st2) \<Rightarrow>
                  (case executeKnotc pf c (zoneSetArgs normalizedZone record) st2 of
                     (Inl err, st3) \<Rightarrow>
                       let (ignored, st4) = executeKnotc pf c [''zone-abort'', normalizedZone] st3
                       in (Some (FailedAdd zone err), record, st4)
                   | (Inr out, st3) \<Rightarrow>
                       (case executeKnotc pf c [''zone-commit'', normalizedZone] st3 of
                          (Inl err, st4) \<Rightarrow> (Some (FailedCommit zone err), record, st4)
                        | (Inr out, st4) \<Rightarrow> (None, record, st4))))"

definition applyUpdates :: "UpdateRecordRequest \<Rightarrow> DNSRecord \<Rightarrow> DNSRecord" where
  "applyUpdates updates existingRecord =
     (let r1 = (case updTTL updates of Some t \<Rightarrow> existingRecord\<lparr>TTL := t\<rparr>
                                     | None \<Rightarrow> existingRecord);
          r2 = (case updData updates of Some d \<Rightarrow> r1\<lparr>Data := d\<rparr> | None \<Rightarrow> r1);
          r3 = (case updPriority updates of Some p \<Rightarrow> r2\<lparr>Priority := Some p\<rparr> | None \<Rightarrow> r2)
      in r3)"

definition UpdateRecord ::
  "'w platform \<Rightarrow> Client \<Rightarrow> string \<Rightarrow> string \<Rightarrow> string \<Rightarrow> UpdateRecordRequest \<Rightarrow> 'w state
     \<Rightarrow> error option \<times> 'w state" where
  "UpdateRecord pf c zone name recordType updates st0 =
     (if \<not> IsZoneAllowed c zone then (Some (ZoneNotAllowed zone), st0)
      else
        case GetRecord pf c zone name recordType st0 of
          (Inl err, st1) \<Rightarrow> (Some (NotFoundWrap err), st1)
        | (Inr existingRecord, st1) \<Rightarrow>
            let originalRecordStr = ToKnotFormat existingRecord in
            case Validate (ParseIP pf) (applyUpdates updates existingRecord) of
              (Some err, updated) \<Rightarrow> (Some (InvalidUpdated err), st1)
            | (None, updated) \<Rightarrow>
                let normalizedZone = normalizeZoneName zone in
                case executeKnotc pf c [''zone-begin'', normalizedZone] st1 of
                  (Inl err, st2) \<Rightarrow> (Some (FailedBegin zone err), st2)
                | (Inr out, st2) \<Rightarrow>
                    (case executeKnotc pf c [''zone-unset'', normalizedZone, originalRecordStr] st2 of
                       (Inl err, st3) \<Rightarrow>
                         let (ignored, st4) = executeKnotc pf c [''zone-abort'', normalizedZone] st3
                         in (Some (FailedRemoveOld zone err), st4)
                     | (Inr out, st3) \<Rightarrow>
                         (case executeKnotc pf c (zoneSetArgs normalizedZone updated) st3 of
                            (Inl err, st4) \<Rightarrow>
                              let (ignored, st5) =
                                    executeKnotc pf c [''zone-abort'', normalizedZone] st4
                              in (Some (FailedAddUpdated zone err), st5)
                          | (Inr out, st4) \<Rightarrow>
                              (case executeKnotc pf c [''zone-commit'', normalizedZone] st4 of
                                 (Inl err, st5) \<Rightarrow> (Some (FailedCommit zone err), st5)
                               | (Inr out, st5) \<Rightarrow> (None, st5)))))"

definition DeleteRecord ::
  "'w platform \<Rightarrow> Client \<Rightarrow> string \<Rightarrow> string \<Rightarrow> string \<Rightarrow> 'w state \<Rightarrow> error option \<times> 'w state" where
  "DeleteRecord pf c zone name recordType st0 =
     (if \<not> IsZoneAllowed c zone then (Some (ZoneNotAllowed zone), st0)
      else
        case GetRecord pf c zone name recordType st0 of
          (Inl err, st1) \<Rightarrow> (Some (NotFoundWrap err), st1)
        | (Inr found, st1) \<Rightarrow>
            (case executeKnotc pf c [''zone-begin'', zone] st1 of
               (Inl err, st2) \<Rightarrow> (Some (FailedBegin zone err), st2)
             | (Inr out, st2) \<Rightarrow>
                 let recordStr = name @ '' '' @ recordType in
                 (case executeKnotc pf c [''zone-unset'', zone, recordStr] st2 of
                    (Inl err, st3) \<Rightarrow>
                      let (ignored, st4) = executeKnotc pf c [''zone-abort'', zone] st3
                      in (Some (FailedRemove zone err), st4)
                  | (Inr out, st3) \<Rightarrow>
                      (case executeKnotc pf c [''zone-commit'', zone] st3 of
                         (Inl err, st4) \<Rightarrow> (Some (FailedCommit zone err), st4)
                       | (Inr out, st4) \<Rightarrow> (None, st4)))))"

section \<open>Auxiliary predicates for the proofs\<close>

fun noSpace :: "string \<Rightarrow> bool" where
  \<comment> \<open>no white-space rune starts anywhere in the string\<close>
  "noSpace [] = True"
| "noSpace (c # cs) = (spaceWidth (c # cs) = 0 \<and> noSpace cs)"

definition isField :: "string \<Rightarrow> bool" where
  \<comment> \<open>what \<open>strings.Fields\<close> returns: non-empty, free of white space\<close>
  "isField t \<longleftrightarrow> t \<noteq> [] \<and> noSpace t"

definition classTokenAt3 :: "string list \<Rightarrow> bool" where
  \<comment> \<open>the second copy of the parser skips the third token as a class\<close>
  "classTokenAt3 parts \<longleftrightarrow>
     5 \<le> length parts \<and> (parts ! 2 = ''IN'' \<or> parts ! 2 = ''CH'' \<or> parts ! 2 = ''HS'')"

definition dataStart :: "string list \<Rightarrow> nat" where
  "dataStart parts = (if classTokenAt3 parts then 4 else 3)"

definition canonicalZone :: "string \<Rightarrow> string" where
  \<comment> \<open>the specification's trailing-dot absolute form of a zone name\<close>
  "canonicalZone z = (if suffix ''.'' z then z else z @ ''.'')"

definition spec_IsAllowed :: "string \<Rightarrow> string list \<Rightarrow> bool" where
  \<comment> \<open>the zone access rule in the words of the specification, to be compared with
     \<open>IsZoneAllowed\<close>: an empty allow-list allows every zone; otherwise the canonical zone
     equals a canonical entry or ends with a dot followed by that entry\<close>
  "spec_IsAllowed zone allowList \<longleftrightarrow>
     allowList = [] \<or>
     (\<exists>entry \<in> set allowList.
        canonicalZone zone = canonicalZone entry
        \<or> suffix (''.'' @ canonicalZone entry) (canonicalZone zone))"

definition issued :: "'w state \<Rightarrow> 'w state \<Rightarrow> (string list \<times> exec_result) list" where
  \<comment> \<open>the commands run between two states, with their results\<close>
  "issued st st' = drop (length (calls st)) (calls st')"

text \<open>
  A scripted control plane, used to run the operations on concrete inputs: the world is the
  list of results still to be returned, and each command consumes the next one.
\<close>

definition scripted :: "string \<Rightarrow> string list \<Rightarrow> exec_result list \<Rightarrow> exec_result \<times> exec_result list" where
  "scripted path args script = (case script of [] \<Rightarrow> (ExecOK [], []) | res # rest \<Rightarrow> (res, rest))"

definition scriptedPlatform :: "exec_result list platform" where
  \<comment> \<open>\<open>ParseIP\<close> is fixed on the addresses of the examples\<close>
  "scriptedPlatform =
     \<lparr>CombinedOutput = scripted,
      ParseIP = (\<lambda>s. if s = ''192.168.1.100'' \<or> s = ''192.168.1.200'' then Some IPv4form else None)\<rparr>"

definition exampleClient :: Client where
  "exampleClient = \<lparr>knotcPath = ''/usr/sbin/knotc'', socketPath = ''/run/knot/knot.sock'',
                    allowedZones = [''example.com'']\<rparr>"

definition start :: "exec_result list \<Rightarrow> exec_result list state" where
  "start script = \<lparr>world = script, calls = []\<rparr>"

section \<open>Properties of the string primitives\<close>

lemma spaceSeqs_nonempty: "p \<in> set spaceSeqs \<Longrightarrow> p \<noteq> []"
  by (auto simp: spaceSeqs_def)

lemma spaceSeqs_tl: "p \<in> set spaceSeqs \<Longrightarrow> CHR '' '' \<notin> set (tl p)"
  by (auto simp: spaceSeqs_def)

lemma spaceWidth_pos_iff: "0 < spaceWidth s \<longleftrightarrow> (\<exists>p\<in>set spaceSeqs. prefix p s)"
proof
  assume "0 < spaceWidth s"
  then obtain p where "find (\<lambda>p. prefix p s) spaceSeqs = Some p"
    by (auto simp: spaceWidth_def split: option.splits)
  then show "\<exists>p\<in>set spaceSeqs. prefix p s"
    by (auto simp: find_Some_iff)
next
  assume "\<exists>p\<in>set spaceSeqs. prefix p s"
  then obtain p where p: "p \<in> set spaceSeqs" "prefix p s" by blast
  then have "find (\<lambda>p. prefix p s) spaceSeqs \<noteq> None"
    by (auto simp: find_None_iff)
  then obtain q where q: "find (\<lambda>p. prefix p s) spaceSeqs = Some q" by blast
  then have "q \<in> set spaceSeqs" by (auto simp: find_Some_iff)
  then have "q \<noteq> []" by (rule spaceSeqs_nonempty)
  with q show "0 < spaceWidth s" by (simp add: spaceWidth_def)
qed

lemma spaceWidth_zero_iff: "spaceWidth s = 0 \<longleftrightarrow> (\<forall>p\<in>set spaceSeqs. \<not> prefix p s)"
  using spaceWidth_pos_iff [of s] by auto

lemma spaceWidth_append_pos: "0 < spaceWidth u \<Longrightarrow> 0 < spaceWidth (u @ r)"
  unfolding spaceWidth_pos_iff by (meson prefix_order.trans prefixI)

lemma spaceWidth_before_blank:
  assumes "u \<noteq> []" and "spaceWidth u = 0"
  shows "spaceWidth (u @ CHR '' '' # r) = 0"
proof (rule ccontr)
  assume "spaceWidth (u @ CHR '' '' # r) \<noteq> 0"
  then obtain p where p: "p \<in> set spaceSeqs" "prefix p (u @ CHR '' '' # r)"
    using spaceWidth_pos_iff by auto
  from assms(2) p(1) have np: "\<not> prefix p u" by (auto simp: spaceWidth_zero_iff)
  from p(2) np obtain us where us: "p = u @ us" "us \<noteq> []" "prefix us (CHR '' '' # r)"
    by (auto simp: prefix_append)
  then have "hd us = CHR '' ''" by (cases us) auto
  with us(1,2) assms(1) have "CHR '' '' \<in> set (tl p)"
    by (cases u; cases us) auto
  with spaceSeqs_tl [OF p(1)] show False by simp
qed

lemma spaceWidth_blank: "spaceWidth (CHR '' '' # r) = 1"
  by (simp add: spaceWidth_def spaceSeqs_def)

lemma Fields_from_field_blank:
  "noSpace t \<Longrightarrow> cur @ t \<noteq> [] \<Longrightarrow>
   Fields_from cur (t @ CHR '' '' # r) = (cur @ t) # Fields_from [] r"
proof (induction t arbitrary: cur)
  case Nil
  then show ?case by (simp add: spaceWidth_blank)
next
  case (Cons c t)
  have "spaceWidth ((c # t) @ CHR '' '' # r) = 0"
    using Cons.prems(1) by (intro spaceWidth_before_blank) auto
  then show ?case using Cons by simp
qed

lemma Fields_from_field_end:
  "noSpace t \<Longrightarrow> cur @ t \<noteq> [] \<Longrightarrow> Fields_from cur t = [cur @ t]"
  by (induction t arbitrary: cur) auto

lemma Fields_Join: "list_all isField ts \<Longrightarrow> Fields (Join ts '' '') = ts"
proof (induction ts)
  case Nil
  then show ?case by (simp add: Fields_def)
next
  case (Cons x xs)
  show ?case
  proof (cases xs)
    case Nil
    with Cons.prems show ?thesis
      by (simp add: Fields_def isField_def Fields_from_field_end)
  next
    case (Cons y ys)
    with Cons.prems Cons.IH show ?thesis
      using Fields_from_field_blank [of x "[]" "Join (y # ys) '' ''"]
      by (simp add: Fields_def isField_def)
  qed
qed

lemma noSpace_of_scanned:
  "(\<forall>i<length cur. spaceWidth (drop i cur @ s) = 0) \<Longrightarrow> noSpace cur"
proof (induction cur)
  case Nil
  then show ?case by simp
next
  case (Cons a cur)
  from Cons.prems have "spaceWidth ((a # cur) @ s) = 0" by fastforce
  then have "spaceWidth (a # cur) = 0"
    using spaceWidth_append_pos [of "a # cur" s] by auto
  moreover have "\<forall>i<length cur. spaceWidth (drop i cur @ s) = 0"
    using Cons.prems by fastforce
  ultimately show ?case using Cons.IH by simp
qed

lemma Fields_from_fields:
  "(\<forall>i<length cur. spaceWidth (drop i cur @ s) = 0) \<Longrightarrow> list_all isField (Fields_from cur s)"
proof (induction cur s rule: Fields_from.induct)
  case (1 cur)
  then show ?case using noSpace_of_scanned [of cur "[]"] by (simp add: isField_def)
next
  case (2 cur c cs)
  show ?case
  proof (cases "0 < spaceWidth (c # cs)")
    case True
    have "list_all isField (Fields_from [] (drop (spaceWidth (c # cs)) (c # cs)))"
      using True by (intro "2.IH"(1)) auto
    moreover have "cur \<noteq> [] \<longrightarrow> isField cur"
      using noSpace_of_scanned [OF "2.prems"] by (simp add: isField_def)
    ultimately show ?thesis using True by simp
  next
    case False
    have "\<forall>i<length (cur @ [c]). spaceWidth (drop i (cur @ [c]) @ cs) = 0"
    proof (intro allI impI)
      fix i assume "i < length (cur @ [c])"
      then consider "i < length cur" | "i = length cur" by fastforce
      then show "spaceWidth (drop i (cur @ [c]) @ cs) = 0"
        using "2.prems" False by cases auto
    qed
    then have "list_all isField (Fields_from (cur @ [c]) cs)"
      using False by (intro "2.IH"(2)) auto
    then show ?thesis using False by simp
  qed
qed

lemma Fields_fields: "list_all isField (Fields s)"
  unfolding Fields_def by (rule Fields_from_fields) simp

subsection \<open>Decimal numerals\<close>

lemma isDigit_digitChar: "d < 10 \<Longrightarrow> isDigit (digitChar d)"
  by (simp add: isDigit_def digitChar_def)

lemma digitVal_digitChar: "d < 10 \<Longrightarrow> digitVal (digitChar d) = d"
  by (simp add: digitVal_def digitChar_def)

lemma FormatUint_nonempty: "FormatUint n \<noteq> []"
  by (subst FormatUint.simps) simp

lemma FormatUint_digits: "list_all isDigit (FormatUint n)"
  by (induction n rule: FormatUint.induct) (subst FormatUint.simps, simp add: isDigit_digitChar)

lemma decimalValue_FormatUint: "decimalValue (FormatUint n) = n"
proof (induction n rule: FormatUint.induct)
  case (1 n)
  show ?case
  proof (cases "n < 10")
    case True
    then show ?thesis
      by (subst FormatUint.simps) (simp add: decimalValue_def digitVal_digitChar)
  next
    case False
    with 1 have "decimalValue (FormatUint (n div 10)) = n div 10" by simp
    with False show ?thesis
      by (subst FormatUint.simps) (simp add: decimalValue_def digitVal_digitChar)
  qed
qed

lemma ParseUint_FormatUint: "n < 2 ^ b \<Longrightarrow> ParseUint (FormatUint n) b = Some n"
  by (simp add: ParseUint_def FormatUint_nonempty FormatUint_digits decimalValue_FormatUint)

lemma isDigit_not_space: "isDigit c \<Longrightarrow> spaceWidth (c # cs) = 0"
  unfolding spaceWidth_zero_iff by (auto simp: spaceSeqs_def isDigit_def)

lemma digits_noSpace: "list_all isDigit s \<Longrightarrow> noSpace s"
  by (induction s) (auto simp: isDigit_not_space)

lemma isField_FormatUint: "isField (FormatUint n)"
  by (simp add: isField_def FormatUint_nonempty FormatUint_digits digits_noSpace)

lemma Join_Join_tail:
  "ys \<noteq> [] \<Longrightarrow> Join (xs @ [Join ys sep]) sep = Join (xs @ ys) sep"
proof (induction xs)
  case Nil
  then show ?case by simp
next
  case (Cons x xs)
  then show ?case by (cases xs; cases ys) auto
qed



lemma list_all_nth: "list_all P xs \<Longrightarrow> i < length xs \<Longrightarrow> P (xs ! i)"
  by (simp add: list_all_length)

lemma list_all_drop: "list_all P xs \<Longrightarrow> list_all P (drop n xs)"
  by (metis append_take_drop_id list_all_append)

lemmas ParseUint_eval = ParseUint_def isDigit_def decimalValue_def digitVal_def

lemma ParseUint_bound: "ParseUint s b = Some n \<Longrightarrow> n < 2 ^ b"
  by (auto simp: ParseUint_def split: if_splits)

lemma unat_of_nat_32: "n < 2 ^ 32 \<Longrightarrow> unat (of_nat n :: 32 word) = n"
  by (simp add: unat_of_nat)

lemma unat_of_nat_16: "n < 2 ^ 16 \<Longrightarrow> unat (of_nat n :: 16 word) = n"
  by (simp add: unat_of_nat)

lemma ParseKnotRecord_fields:
  assumes f: "list_all isField parts" and len: "4 \<le> length parts"
    and ttl: "ParseUint (parts ! 1) 32 = Some n" and ty: "parts ! 2 \<noteq> RecordTypeMX"
    and F: "Fields line = parts"
  shows "ParseKnotRecord line =
    Inr \<lparr>Name = parts ! 0, Type = parts ! 2, TTL = of_nat n,
         Data = Join (drop 3 parts) '' '', Priority = None\<rparr>"
  using len ttl ty by (simp add: ParseKnotRecord_def F Let_def)

section \<open>The record codec\<close>

text \<open>
  The codec of types.go on its own format. For every line with at least four white-space
  separated tokens whose second token is a numeric TTL and whose third token is not \<open>MX\<close>,
  \<open>ParseKnotRecord\<close> returns a record (name: first token, type: third token, data: the
  remaining tokens joined by single spaces, no priority), and parsing the output of
  \<open>ToKnotFormat\<close> for that record returns the same record again.
\<close>

lemma ParseKnotRecord_ToKnotFormat_roundtrip:
  assumes len: "4 \<le> length (Fields line)"
    and ttl: "ParseUint (Fields line ! 1) 32 = Some n"
    and ty: "Fields line ! 2 \<noteq> RecordTypeMX"
  shows "\<exists>r. ParseKnotRecord line = Inr r
           \<and> Name r = Fields line ! 0 \<and> unat (TTL r) = n \<and> Type r = Fields line ! 2
           \<and> Data r = Join (drop 3 (Fields line)) '' '' \<and> Priority r = None
           \<and> ParseKnotRecord (ToKnotFormat r) = Inr r"
proof -
  define parts where "parts = Fields line"
  define r where "r = \<lparr>Name = parts ! 0, Type = parts ! 2, TTL = of_nat n,
         Data = Join (drop 3 parts) '' '', Priority = None\<rparr>"
  have f: "list_all isField parts" unfolding parts_def by (rule Fields_fields)
  have len': "4 \<le> length parts" using len by (simp add: parts_def)
  have n: "n < 2 ^ 32" using ttl by (rule ParseUint_bound)
  have p: "ParseKnotRecord line = Inr r"
    unfolding r_def using f len ttl ty
    by (intro ParseKnotRecord_fields) (simp_all add: parts_def)
  define parts' where "parts' = [parts ! 0, FormatUint n, parts ! 2] @ drop 3 parts"
  have d3: "drop 3 parts \<noteq> []" using len' by simp
  have fmt: "ToKnotFormat r = Join parts' '' ''"
    using Join_Join_tail [OF d3, of "[parts ! 0, FormatUint n, parts ! 2]" "'' ''"]
    by (simp add: ToKnotFormat_def r_def parts'_def unat_of_nat_32 [OF n])
  have f': "list_all isField parts'"
  proof -
    have "isField (parts ! 0)" using f len' by (cases parts) auto
    moreover have "isField (parts ! 2)" using f len' by (simp add: list_all_length)
    ultimately show ?thesis
      using f by (simp add: parts'_def isField_FormatUint list_all_drop)
  qed
  have F': "Fields (ToKnotFormat r) = parts'"
    unfolding fmt using f' by (rule Fields_Join)
  have "ParseKnotRecord (ToKnotFormat r) =
    Inr \<lparr>Name = parts' ! 0, Type = parts' ! 2, TTL = of_nat n,
         Data = Join (drop 3 parts') '' '', Priority = None\<rparr>"
    using f' F' len' ty
    by (intro ParseKnotRecord_fields) (simp_all add: parts'_def parts_def ParseUint_FormatUint [OF n])
  then have rt: "ParseKnotRecord (ToKnotFormat r) = Inr r"
    by (simp add: parts'_def r_def)
  show ?thesis
    using p rt by (intro exI [of _ r]) (simp add: r_def parts_def unat_of_nat_32 [OF n])
qed

lemma ParseKnotRecord_ToKnotFormat_roundtrip_example:
  "\<exists>r. ParseKnotRecord ''www 0300 IN A 192.0.2.1'' = Inr r
       \<and> Name r = ''www'' \<and> unat (TTL r) = 300 \<and> Type r = ''IN''
       \<and> Data r = ''A 192.0.2.1'' \<and> Priority r = None
       \<and> ParseKnotRecord (ToKnotFormat r) = Inr r"
proof -
  have F: "Fields ''www 0300 IN A 192.0.2.1'' = [''www'', ''0300'', ''IN'', ''A'', ''192.0.2.1'']"
    by code_simp
  have P: "ParseUint ''0300'' 32 = Some 300" by (simp add: ParseUint_eval)
  show ?thesis
    using ParseKnotRecord_ToKnotFormat_roundtrip [of "''www 0300 IN A 192.0.2.1''" 300]
    by (simp add: F P RecordTypeMX_def)
qed

text \<open>
  C1. A line with a bracketed zone prefix, as the control plane prints it and as the
  repository's own parsing test feeds it to \<open>ParseKnotRecord\<close>, describes the record that
  follows the prefix. The second copy of the parser (part_001) returns that record. The
  parser of types.go has no prefix handling: it takes the prefix for the name and the owner
  name for the TTL, and fails, so that there is no record to format and the round trip of
  parsing and formatting does not exist for such a line.
\<close>

theorem ParseKnotRecord_zone_prefix_rejected:
  "ParseKnotRecord ''[143.31.194.in-addr.arpa.] 0.143.31.194.in-addr.arpa. 900 PTR hypr.tech.''
     = Inl (InvalidTTL ''0.143.31.194.in-addr.arpa.'')
   \<and> ParseKnotRecord_part001
       ''[143.31.194.in-addr.arpa.] 0.143.31.194.in-addr.arpa. 900 PTR hypr.tech.''
     = Inr \<lparr>Name = ''0.143.31.194.in-addr.arpa.'', Type = ''PTR'', TTL = 900,
            Data = ''hypr.tech.'', Priority = None\<rparr>"
  by code_simp

subsection \<open>Priority and data of a parsed line\<close>

lemma ParseKnotRecord_part001_data:
  assumes "ParseKnotRecord_part001 line = Inr r"
  shows "(let parts = Fields (stripZonePrefix line); ds = dataStart parts in
       Type r = parts ! (ds - 1) \<and>
       (if Type r = RecordTypeMX
        then ds + 2 \<le> length parts
           \<and> (\<exists>p. ParseUint (parts ! ds) 16 = Some p \<and> Priority r = Some (of_nat p))
           \<and> Data r = Join (drop (ds + 1) parts) '' ''
        else Data r = Join (drop ds parts) '' ''))"
  using assms
  by (auto simp: ParseKnotRecord_part001_def Let_def dataStart_def classTokenAt3_def
           split: if_splits option.splits)

lemma ParseKnotRecord_data:
  assumes "ParseKnotRecord line = Inr r"
  shows "(let parts = Fields line in
       Type r = parts ! 2 \<and>
       (if Type r = RecordTypeMX
        then 5 \<le> length parts
           \<and> (\<exists>p. ParseUint (parts ! 3) 16 = Some p \<and> Priority r = Some (of_nat p))
           \<and> Data r = parts ! 4
        else Data r = Join (drop 3 parts) '' ''))"
  using assms
  by (auto simp: ParseKnotRecord_def Let_def split: if_splits option.splits)

text \<open>
  C7 (as amended). Whenever either copy of \<open>ParseKnotRecord\<close> returns a record of type MX,
  the token right after the type is present, parses as an unsigned 16-bit number and is the
  record's priority, and at least one more token follows; so a line read as MX whose
  priority token is missing or not numeric is rejected. On success the second copy
  (part_001) sets the data to the space-join of all tokens after the priority, and for any
  other type to the space-join of all tokens after the type. The copy in types.go does the
  same for the other types, but for MX it takes only the single token after the priority
  as the data and drops every token after it.
\<close>

theorem ParseKnotRecord_priority_and_data:
  "(ParseKnotRecord_part001 line = Inr r \<longrightarrow>
      (let parts = Fields (stripZonePrefix line); ds = dataStart parts in
       Type r = parts ! (ds - 1) \<and>
       (if Type r = RecordTypeMX
        then ds + 2 \<le> length parts
           \<and> (\<exists>p. ParseUint (parts ! ds) 16 = Some p \<and> Priority r = Some (of_nat p))
           \<and> Data r = Join (drop (ds + 1) parts) '' ''
        else Data r = Join (drop ds parts) '' '')))
   \<and> (ParseKnotRecord line = Inr r' \<longrightarrow>
      (let parts = Fields line in
       Type r' = parts ! 2 \<and>
       (if Type r' = RecordTypeMX
        then 5 \<le> length parts
           \<and> (\<exists>p. ParseUint (parts ! 3) 16 = Some p \<and> Priority r' = Some (of_nat p))
           \<and> Data r' = parts ! 4
        else Data r' = Join (drop 3 parts) '' '')))"
  using ParseKnotRecord_part001_data [of line r] ParseKnotRecord_data [of line r']
  by blast

theorem ParseKnotRecord_priority_and_data_witness:
  "ParseKnotRecord_part001 ''[example.com.] example.com. 3600 IN MX 10 mail.example.com.'' =
     Inr \<lparr>Name = ''example.com.'', Type = ''MX'', TTL = 3600, Data = ''mail.example.com.'',
          Priority = Some 10\<rparr>
   \<and> ParseKnotRecord ''example.com. 3600 MX 10 mail.example.com.'' =
     Inr \<lparr>Name = ''example.com.'', Type = ''MX'', TTL = 3600, Data = ''mail.example.com.'',
          Priority = Some 10\<rparr>
   \<and> Join (drop 5 (Fields (stripZonePrefix
         ''[example.com.] example.com. 3600 IN MX 10 mail.example.com.''))) '' ''
       = ''mail.example.com.''
   \<and> Fields ''example.com. 3600 MX 10 mail.example.com.'' ! 4 = ''mail.example.com.''"
proof -
  let ?r = "\<lparr>Name = ''example.com.'', Type = ''MX'', TTL = 3600, Data = ''mail.example.com.'',
          Priority = Some (10 :: 16 word)\<rparr>"
  have p1: "ParseKnotRecord_part001 ''[example.com.] example.com. 3600 IN MX 10 mail.example.com.''
      = Inr ?r"
    by code_simp
  have p0: "ParseKnotRecord ''example.com. 3600 MX 10 mail.example.com.'' = Inr ?r"
    by code_simp
  have ds: "dataStart (Fields (stripZonePrefix
      ''[example.com.] example.com. 3600 IN MX 10 mail.example.com.'')) = 4"
    by code_simp
  have a: "Data ?r = Join (drop 5 (Fields (stripZonePrefix
         ''[example.com.] example.com. 3600 IN MX 10 mail.example.com.''))) '' ''"
    using ParseKnotRecord_priority_and_data
      [of "''[example.com.] example.com. 3600 IN MX 10 mail.example.com.''" ?r ?r] p1
    by (simp add: Let_def ds RecordTypeMX_def)
  have b: "Data ?r = Fields ''example.com. 3600 MX 10 mail.example.com.'' ! 4"
    using ParseKnotRecord_priority_and_data
      [of "''example.com. 3600 MX 10 mail.example.com.''" ?r ?r] p0
    by (simp add: Let_def RecordTypeMX_def)
  show ?thesis using p1 p0 a b by simp
qed

text \<open>
  An MX line with two tokens after the priority: types.go keeps the first of them only,
  where the join of the remaining tokens is \<open>a b\<close>.
\<close>

theorem ParseKnotRecord_MX_counterexample:
  "ParseKnotRecord ''x 300 MX 10 a b''
     = Inr \<lparr>Name = ''x'', Type = ''MX'', TTL = 300, Data = ''a'', Priority = Some 10\<rparr>
   \<and> Join (drop 4 (Fields ''x 300 MX 10 a b'')) '' '' = ''a b''"
  by code_simp

subsection \<open>The two copies of the codec\<close>

lemma drop_last_one: "length xs = Suc n \<Longrightarrow> drop n xs = [xs ! n]"
  by (metis Cons_nth_drop_Suc drop_all lessI order_refl)

lemma ParseKnotRecord_copies_agree:
  assumes F: "Fields (stripZonePrefix line) = Fields line"
    and nc: "\<not> classTokenAt3 (Fields line)"
    and mx: "4 \<le> length (Fields line) \<and> Fields line ! 2 = RecordTypeMX \<longrightarrow> length (Fields line) \<le> 5"
  shows "ParseKnotRecord line = Inr r \<longleftrightarrow> ParseKnotRecord_part001 line = Inr r"
proof -
  have five: "drop 4 (Fields line) = [Fields line ! 4]" if "length (Fields line) = 5"
    using that drop_last_one [of "Fields line" 4] by simp
  have len5: "length (Fields line) = 5"
    if "4 \<le> length (Fields line)" "Fields line ! 2 = RecordTypeMX" "\<not> length (Fields line) < 5"
    using that mx by simp
  show ?thesis
    using nc five len5
    by (auto simp: ParseKnotRecord_def ParseKnotRecord_part001_def F Let_def classTokenAt3_def
             split: option.splits)
qed

lemma length_Join:
  "length (Join xs sep) = sum_list (map length xs) + (length xs - 1) * length sep"
  by (induction xs sep rule: Join.induct) auto

lemma ToKnotFormat_copies_length:
  "length (ToKnotFormat_part001 r) = length (ToKnotFormat r) + 3"
  by (simp add: ToKnotFormat_def ToKnotFormat_part001_def length_Join split: option.splits)

text \<open>
  C9 (as amended). The two copies of the codec are not equivalent. They return the same
  result (the same record, or both an error) on every line
  \<^item> whose tokens are not changed by the prefix handling of the second copy (no leading
    \<open>[zone]\<close> is cut off),
  \<^item> that has no class token \<open>IN\<close>, \<open>CH\<close> or \<open>HS\<close> in third position followed by at least
    two more tokens, and
  \<^item> that, if its third token is \<open>MX\<close>, has at most five tokens.
  For every record the output of \<open>ToKnotFormat\<close> in part_001 is three bytes longer than the
  output in types.go (it carries the class token \<open>IN\<close> after the TTL), so the two outputs
  are never the same line.
\<close>

theorem codec_copies_agreement:
  "(Fields (stripZonePrefix line) = Fields line
      \<and> \<not> classTokenAt3 (Fields line)
      \<and> (4 \<le> length (Fields line) \<and> Fields line ! 2 = RecordTypeMX
           \<longrightarrow> length (Fields line) \<le> 5)
     \<longrightarrow> (ParseKnotRecord line = Inr r \<longleftrightarrow> ParseKnotRecord_part001 line = Inr r))
   \<and> length (ToKnotFormat_part001 r') = length (ToKnotFormat r') + 3"
  using ParseKnotRecord_copies_agree [of line r] ToKnotFormat_copies_length [of r']
  by blast

theorem codec_copies_agreement_witness:
  "Fields (stripZonePrefix ''www 300 A 192.0.2.1'') = Fields ''www 300 A 192.0.2.1''
   \<and> \<not> classTokenAt3 (Fields ''www 300 A 192.0.2.1'')
   \<and> ParseKnotRecord ''www 300 A 192.0.2.1'' =
       Inr \<lparr>Name = ''www'', Type = ''A'', TTL = 300, Data = ''192.0.2.1'', Priority = None\<rparr>
   \<and> ParseKnotRecord_part001 ''www 300 A 192.0.2.1'' =
       Inr \<lparr>Name = ''www'', Type = ''A'', TTL = 300, Data = ''192.0.2.1'', Priority = None\<rparr>
   \<and> length (ToKnotFormat_part001
         \<lparr>Name = ''www'', Type = ''A'', TTL = 300, Data = ''192.0.2.1'', Priority = None\<rparr>) =
       length (ToKnotFormat
         \<lparr>Name = ''www'', Type = ''A'', TTL = 300, Data = ''192.0.2.1'', Priority = None\<rparr>) + 3"
proof -
  let ?r = "\<lparr>Name = ''www'', Type = ''A'', TTL = 300 :: 32 word, Data = ''192.0.2.1'',
             Priority = None :: 16 word option\<rparr>"
  have s: "Fields (stripZonePrefix ''www 300 A 192.0.2.1'') = Fields ''www 300 A 192.0.2.1''"
    by code_simp
  have f: "Fields ''www 300 A 192.0.2.1'' = [''www'', ''300'', ''A'', ''192.0.2.1'']"
    by code_simp
  have p0: "ParseKnotRecord ''www 300 A 192.0.2.1'' = Inr ?r"
    by code_simp
  show ?thesis
    using codec_copies_agreement [of "''www 300 A 192.0.2.1''" ?r ?r] s p0
    by (simp add: f classTokenAt3_def RecordTypeMX_def)
qed

text \<open>
  A line with the class token \<open>IN\<close>: types.go reads \<open>IN\<close> as the type and \<open>A 192.0.2.1\<close> as
  the data, the second copy skips the class.
\<close>

theorem codec_copies_counterexample:
  "ParseKnotRecord ''www 300 IN A 192.0.2.1''
     = Inr \<lparr>Name = ''www'', Type = ''IN'', TTL = 300, Data = ''A 192.0.2.1'', Priority = None\<rparr>
   \<and> ParseKnotRecord_part001 ''www 300 IN A 192.0.2.1''
     = Inr \<lparr>Name = ''www'', Type = ''A'', TTL = 300, Data = ''192.0.2.1'', Priority = None\<rparr>
   \<and> ToKnotFormat \<lparr>Name = ''www'', Type = ''A'', TTL = 300, Data = ''192.0.2.1'', Priority = None\<rparr>
     = ''www 300 A 192.0.2.1''
   \<and> ToKnotFormat_part001
       \<lparr>Name = ''www'', Type = ''A'', TTL = 300, Data = ''192.0.2.1'', Priority = None\<rparr>
     = ''www 300 IN A 192.0.2.1''"
  by code_simp

section \<open>Validation\<close>

lemmas RecordType_defs = RecordTypeA_def RecordTypeAAAA_def RecordTypePTR_def RecordTypeCNAME_def
  RecordTypeMX_def RecordTypeTXT_def RecordTypeNS_def RecordTypeSOA_def

lemma HasSuffix_snoc: "HasSuffix (d @ [c]) [c]"
  by (simp add: HasSuffix_def suffix_def)

lemma HasPrefix_Cons: "HasPrefix (c # d) [c]"
  by (simp add: HasPrefix_def)

lemma HasSuffix_Cons_snoc: "HasSuffix (a # d @ [c]) [c]"
  using HasSuffix_snoc [of "a # d" c] by simp

lemma validateData_fields:
  "validateData P r = (e, r1) \<Longrightarrow>
     Name r1 = Name r \<and> Type r1 = Type r \<and> TTL r1 = TTL r \<and> Priority r1 = Priority r"
  by (auto simp: validateData_def split: if_splits)

lemma validateData_idem:
  assumes v: "validateData P r = (None, r1)"
  shows "validateData P r1 = (None, r1)"
proof -
  consider (addr) "Type r = RecordTypeA \<or> Type r = RecordTypeAAAA"
    | (dname) "Type r = RecordTypePTR \<or> Type r = RecordTypeCNAME \<or> Type r = RecordTypeNS"
    | (mail) "Type r = RecordTypeMX"
    | (quoted) "Type r = RecordTypeTXT"
    | (rest) "Type r \<notin> set ValidRecordTypes"
    by (auto simp: ValidRecordTypes_def)
  then show ?thesis
  proof cases
    case addr
    with v have "r1 = r" by (auto simp: validateData_def RecordType_defs split: if_splits)
    with v show ?thesis by simp
  next
    case dname
    with v have d: "Data r \<noteq> []"
      and r1: "r1 = (if HasSuffix (Data r) ''.'' then r else r\<lparr>Data := Data r @ ''.''\<rparr>)"
      by (auto simp: validateData_def RecordType_defs split: if_splits)
    from dname r1 d show ?thesis
      by (auto simp: validateData_def RecordType_defs HasSuffix_snoc)
  next
    case mail
    with v have d: "Priority r \<noteq> None"
      and r1: "r1 = (if HasSuffix (Data r) ''.'' then r else r\<lparr>Data := Data r @ ''.''\<rparr>)"
      by (auto simp: validateData_def RecordType_defs split: if_splits)
    from mail r1 d show ?thesis
      by (auto simp: validateData_def RecordType_defs HasSuffix_snoc)
  next
    case quoted
    let ?q = "[CHR 0x22]"
    from quoted v have d: "Data r \<noteq> []"
      and r1: "r1 = (if HasPrefix (Data r) ?q \<and> HasSuffix (Data r) ?q then r
                     else r\<lparr>Data := ?q @ TrimByte (Data r) (CHR 0x22) @ ?q\<rparr>)"
      by (auto simp: validateData_def RecordType_defs split: if_splits)
    from quoted r1 d show ?thesis
      by (auto simp: validateData_def RecordType_defs HasPrefix_Cons HasSuffix_Cons_snoc)
  next
    case rest
    with v have "r1 = r" by (auto simp: validateData_def ValidRecordTypes_def split: if_splits)
    with v show ?thesis by simp
  qed
qed


lemma Validate_ok_iff:
  "Validate P r = (None, r') \<longleftrightarrow>
     Name r \<noteq> [] \<and> IsValidRecordType (Type r) \<and>
     validateData P (if TTL r = 0 then r\<lparr>TTL := 300\<rparr> else r) = (None, r')"
  by (cases "validateData P (if TTL r = 0 then r\<lparr>TTL := 300\<rparr> else r)")
     (auto simp: Validate_def Let_def split: option.splits)

lemma Validate_idem:
  assumes "Validate P r = (None, r')"
  shows "Validate P r' = (None, r')"
proof -
  let ?r0 = "if TTL r = 0 then r\<lparr>TTL := 300\<rparr> else r"
  from assms have n: "Name r \<noteq> []" and t: "IsValidRecordType (Type r)"
    and v: "validateData P ?r0 = (None, r')"
    by (simp_all add: Validate_ok_iff)
  from validateData_fields [OF v] have f: "Name r' = Name r" "Type r' = Type r" "TTL r' \<noteq> 0"
    by (auto split: if_splits)
  from validateData_idem [OF v] have "validateData P r' = (None, r')" .
  with n t f show ?thesis by (simp add: Validate_ok_iff)
qed

lemma Validate_dot:
  assumes "Validate P r = (None, r')"
    and "Type r = RecordTypePTR \<or> Type r = RecordTypeCNAME \<or> Type r = RecordTypeNS \<or> Type r = RecordTypeMX"
    and "\<not> HasSuffix (Data r) ''.''"
  shows "Data r' = Data r @ ''.''"
proof -
  let ?r0 = "if TTL r = 0 then r\<lparr>TTL := 300\<rparr> else r"
  from assms(1) have v: "validateData P ?r0 = (None, r')"
    by (simp add: Validate_ok_iff)
  have "Type ?r0 = Type r" "Data ?r0 = Data r" by simp_all
  with v assms(2,3) show ?thesis
    by (auto simp: validateData_def RecordType_defs split: if_splits)
qed

lemma Validate_ttl:
  assumes "Validate P r = (None, r')"
  shows "TTL r' = (if TTL r = 0 then 300 else TTL r)"
  using assms validateData_fields [of P "if TTL r = 0 then r\<lparr>TTL := 300\<rparr> else r" None r']
  by (auto simp: Validate_ok_iff split: if_splits)

lemma Validate_not_exact:
  assumes "Name r \<noteq> []" "IsValidRecordType (Type r)" "Type r \<notin> set ValidRecordTypes"
  shows "Validate P r = (None, if TTL r = 0 then r\<lparr>TTL := 300\<rparr> else r)"
proof -
  have "validateData P r0 = (None, r0)" if "Type r0 = Type r" for r0
    using that assms(3) by (simp add: validateData_def ValidRecordTypes_def)
  then show ?thesis using assms(1,2) by (simp add: Validate_def Let_def)
qed

text \<open>
  C6. \<open>Validate\<close> is idempotent: if it succeeds on a record and leaves it as \<open>r'\<close>, then
  it succeeds on \<open>r'\<close> and leaves every field as it is. For a PTR, CNAME, NS or MX record
  whose data does not end with a dot, a successful \<open>Validate\<close> appends exactly one dot; for a
  record with TTL zero it sets the TTL to 300.
\<close>

theorem Validate_idempotent:
  "(Validate P r = (None, r') \<longrightarrow> Validate P r' = (None, r'))
   \<and> (Validate P r = (None, r')
        \<and> (Type r = RecordTypePTR \<or> Type r = RecordTypeCNAME \<or> Type r = RecordTypeNS
             \<or> Type r = RecordTypeMX)
        \<and> \<not> HasSuffix (Data r) ''.''
      \<longrightarrow> Data r' = Data r @ ''.'')
   \<and> (Validate P r = (None, r') \<and> TTL r = 0 \<longrightarrow> TTL r' = 300)"
  using Validate_idem [of P r r'] Validate_dot [of P r r'] Validate_ttl [of P r r']
  by auto

theorem Validate_idempotent_witness:
  "Validate (\<lambda>s. None)
     \<lparr>Name = ''www'', Type = ''CNAME'', TTL = 0, Data = ''host.example.com'', Priority = None\<rparr>
   = (None, \<lparr>Name = ''www'', Type = ''CNAME'', TTL = 300, Data = ''host.example.com.'',
             Priority = None\<rparr>)
   \<and> Validate (\<lambda>s. None)
     \<lparr>Name = ''www'', Type = ''CNAME'', TTL = 300, Data = ''host.example.com.'', Priority = None\<rparr>
   = (None, \<lparr>Name = ''www'', Type = ''CNAME'', TTL = 300, Data = ''host.example.com.'',
             Priority = None\<rparr>)"
proof -
  let ?r = "\<lparr>Name = ''www'', Type = ''CNAME'', TTL = 0 :: 32 word, Data = ''host.example.com'',
             Priority = None :: 16 word option\<rparr>"
  let ?r' = "\<lparr>Name = ''www'', Type = ''CNAME'', TTL = 300 :: 32 word,
              Data = ''host.example.com.'', Priority = None :: 16 word option\<rparr>"
  have v: "Validate (\<lambda>s. None) ?r = (None, ?r')"
    by code_simp
  show ?thesis
    using Validate_idempotent [of "\<lambda>s. None" ?r ?r'] v by simp
qed

text \<open>
  C10. The type check of \<open>Validate\<close> ignores case (\<open>IsValidRecordType\<close> upper-cases its
  argument), the per-type rules match the exact upper-case constants only. So for every
  record with a non-empty name whose type is accepted by \<open>IsValidRecordType\<close> without being
  one of the constants themselves (such as \<open>a\<close> or \<open>mx\<close>), \<open>Validate\<close> succeeds whatever
  the data and the priority are; it changes nothing but a zero TTL.
\<close>

theorem Validate_case_variant:
  "Name r \<noteq> [] \<and> IsValidRecordType (Type r) \<and> Type r \<notin> set ValidRecordTypes
   \<longrightarrow> Validate P r = (None, if TTL r = 0 then r\<lparr>TTL := 300\<rparr> else r)"
  using Validate_not_exact [of r P] by blast

theorem Validate_case_variant_witness:
  "IsValidRecordType ''mx'' \<and> ''mx'' \<notin> set ValidRecordTypes
   \<and> Validate (\<lambda>s. None) \<lparr>Name = ''x'', Type = ''mx'', TTL = 0, Data = [], Priority = None\<rparr>
     = (None, \<lparr>Name = ''x'', Type = ''mx'', TTL = 300, Data = [], Priority = None\<rparr>)"
proof -
  have v: "IsValidRecordType ''mx''" by code_simp
  have n: "''mx'' \<notin> set ValidRecordTypes" by (simp add: ValidRecordTypes_def RecordType_defs)
  show ?thesis
    using Validate_case_variant
      [of "\<lparr>Name = ''x'', Type = ''mx'', TTL = 0, Data = [], Priority = None\<rparr>" "\<lambda>s. None"] v n
    by simp
qed

section \<open>Zone access\<close>

lemma IsZoneAllowed_spec: "IsZoneAllowed c zone \<longleftrightarrow> spec_IsAllowed zone (allowedZones c)"
  by (auto simp: IsZoneAllowed_def spec_IsAllowed_def canonicalZone_def normalizeZoneName_def
                 HasSuffix_def Let_def list_ex_iff)

lemma IsZoneAllowed_part002_raw:
  "IsZoneAllowed_part002 c zone \<longleftrightarrow>
     allowedZones c = [] \<or> (\<exists>entry \<in> set (allowedZones c). zone = entry \<or> suffix (''.'' @ entry) zone)"
  by (auto simp: IsZoneAllowed_part002_def HasSuffix_def list_ex_iff)

text \<open>
  C5 (as amended). \<open>IsZoneAllowed\<close> of client.go returns true if and only if the allow-list
  is empty or the canonical (trailing-dot) form of the zone equals the canonical form of
  some entry or ends with a dot followed by it; so \<open>a.b.example.com\<close> is allowed under
  \<open>[example.com]\<close> and \<open>notexample.com\<close> is not. The copy of \<open>IsZoneAllowed\<close> in part_002
  gives the same two answers, but it does not canonicalise: it returns true if and only if
  the allow-list is empty or the zone as given equals an entry as given or ends with a
  dot followed by it.
\<close>

theorem IsZoneAllowed_characterisation:
  "(IsZoneAllowed c zone \<longleftrightarrow> spec_IsAllowed zone (allowedZones c))
   \<and> (IsZoneAllowed_part002 c zone \<longleftrightarrow>
        allowedZones c = [] \<or>
        (\<exists>entry \<in> set (allowedZones c). zone = entry \<or> suffix (''.'' @ entry) zone))
   \<and> IsZoneAllowed (c\<lparr>allowedZones := [''example.com'']\<rparr>) ''a.b.example.com''
   \<and> \<not> IsZoneAllowed (c\<lparr>allowedZones := [''example.com'']\<rparr>) ''notexample.com''
   \<and> IsZoneAllowed_part002 (c\<lparr>allowedZones := [''example.com'']\<rparr>) ''a.b.example.com''
   \<and> \<not> IsZoneAllowed_part002 (c\<lparr>allowedZones := [''example.com'']\<rparr>) ''notexample.com''"
proof -
  have "IsZoneAllowed (c\<lparr>allowedZones := [''example.com'']\<rparr>) ''a.b.example.com''"
    by (simp add: IsZoneAllowed_def normalizeZoneName_def HasSuffix_def suffix_def)
  moreover have "\<not> IsZoneAllowed (c\<lparr>allowedZones := [''example.com'']\<rparr>) ''notexample.com''"
    by (simp add: IsZoneAllowed_def normalizeZoneName_def HasSuffix_def suffix_def
                  append_eq_Cons_conv)
  moreover have "IsZoneAllowed_part002 (c\<lparr>allowedZones := [''example.com'']\<rparr>) ''a.b.example.com''"
    by (simp add: IsZoneAllowed_part002_def HasSuffix_def suffix_def)
  moreover have "\<not> IsZoneAllowed_part002 (c\<lparr>allowedZones := [''example.com'']\<rparr>) ''notexample.com''"
    by (simp add: IsZoneAllowed_part002_def HasSuffix_def suffix_def append_eq_Cons_conv)
  ultimately show ?thesis
    using IsZoneAllowed_spec [of c zone] IsZoneAllowed_part002_raw [of c zone] by blast
qed

theorem IsZoneAllowed_characterisation_witness:
  "IsZoneAllowed \<lparr>knotcPath = ''knotc'', socketPath = [], allowedZones = [''example.com'']\<rparr>
     ''example.com.''
   \<and> spec_IsAllowed ''example.com.'' [''example.com'']"
proof -
  have "spec_IsAllowed ''example.com.'' [''example.com'']"
    by (simp add: spec_IsAllowed_def canonicalZone_def suffix_def)
  then show ?thesis
    using IsZoneAllowed_characterisation
      [of "\<lparr>knotcPath = ''knotc'', socketPath = [], allowedZones = [''example.com'']\<rparr>"
          "''example.com.''"]
    by simp
qed

text \<open>
  The zone \<open>example.com.\<close> is allowed by the specification's rule under the allow-list
  \<open>[example.com]\<close>, and refused by the copy in part_002.
\<close>

theorem IsZoneAllowed_part002_counterexample:
  "spec_IsAllowed ''example.com.'' [''example.com'']
   \<and> \<not> IsZoneAllowed_part002
         \<lparr>knotcPath = ''knotc'', socketPath = [], allowedZones = [''example.com'']\<rparr>
         ''example.com.''"
  by (simp add: spec_IsAllowed_def canonicalZone_def suffix_def IsZoneAllowed_part002_def
                HasSuffix_def)

section \<open>The transactions of the client\<close>

lemma executeKnotc_cases:
  obtains (ok) out w where
      "executeKnotc pf c args st =
         (Inr (TrimSpace out), \<lparr>world = w, calls = calls st @ [(knotcArgs c args, ExecOK out)]\<rparr>)"
  | (fail) e out w where
      "executeKnotc pf c args st =
         (Inl (KnotcFailed e out), \<lparr>world = w, calls = calls st @ [(knotcArgs c args, ExecFail e out)]\<rparr>)"
proof (cases "CombinedOutput pf (knotcPath c) (knotcArgs c args) (world st)")
  case (Pair res w)
  show thesis
  proof (cases res)
    case (ExecOK out)
    with Pair show thesis by (intro ok [of out w]) (simp add: executeKnotc_def)
  next
    case (ExecFail e out)
    with Pair show thesis by (intro fail [of e out w]) (simp add: executeKnotc_def)
  qed
qed

lemma GetRecords_cases:
  assumes "IsZoneAllowed c zone"
  obtains (ok) out w where
      "GetRecords pf c zone st =
         (Inr (recordsOfLines (ScanLines (TrimSpace out))),
          \<lparr>world = w, calls = calls st @ [(knotcArgs c [''zone-read'', normalizeZoneName zone], ExecOK out)]\<rparr>)"
  | (fail) e out w where
      "GetRecords pf c zone st =
         (Inl (FailedRead zone (KnotcFailed e out)),
          \<lparr>world = w, calls = calls st @ [(knotcArgs c [''zone-read'', normalizeZoneName zone], ExecFail e out)]\<rparr>)"
proof (cases rule: executeKnotc_cases [of pf c "[''zone-read'', normalizeZoneName zone]" st])
  case (ok out w)
  with assms show thesis by (intro that(1) [of out w]) (simp add: GetRecords_def)
next
  case (fail e out w)
  with assms show thesis by (intro that(2) [of e out w]) (simp add: GetRecords_def)
qed

lemma GetRecord_calls:
  assumes "IsZoneAllowed c zone" and "GetRecord pf c zone name ty st = (x, st1)"
  shows "\<exists>res. calls st1 = calls st @ [(knotcArgs c [''zone-read'', normalizeZoneName zone], res)]
           \<and> (\<forall>ex. x = Inr ex \<longrightarrow> (\<exists>out. res = ExecOK out))"
proof (rule GetRecords_cases [OF assms(1), of pf st], goal_cases)
  case (1 out w)
  with assms show ?thesis
    by (auto simp: GetRecord_def split: option.splits)
next
  case (2 e out w)
  with assms show ?thesis
    by (auto simp: GetRecord_def split: option.splits)
qed


lemma CreateRecord_outcomes:
  assumes al: "IsZoneAllowed c zone" and v: "Validate (ParseIP pf) r = (None, r')"
    and g: "GetRecord pf c zone (Name r') (Type r') st = (probe, st1)"
  obtains
    (noop) ex where "probe = Inr ex" "sameValues ex r'"
      "CreateRecord pf c zone r st = (None, r', st1)"
  | (begin_failed) e out st' where
      "\<not> (\<exists>ex. probe = Inr ex \<and> sameValues ex r')"
      "CreateRecord pf c zone r st = (Some (FailedBegin zone (KnotcFailed e out)), r', st')"
      "calls st' = calls st1 @ [(knotcArgs c [''zone-begin'', normalizeZoneName zone], ExecFail e out)]"
  | (set_failed) o1 e out res st' where
      "\<not> (\<exists>ex. probe = Inr ex \<and> sameValues ex r')"
      "CreateRecord pf c zone r st = (Some (FailedAdd zone (KnotcFailed e out)), r', st')"
      "calls st' = calls st1 @
         [(knotcArgs c [''zone-begin'', normalizeZoneName zone], ExecOK o1),
          (knotcArgs c (zoneSetArgs (normalizeZoneName zone) r'), ExecFail e out),
          (knotcArgs c [''zone-abort'', normalizeZoneName zone], res)]"
  | (commit_failed) o1 o2 e out st' where
      "\<not> (\<exists>ex. probe = Inr ex \<and> sameValues ex r')"
      "CreateRecord pf c zone r st = (Some (FailedCommit zone (KnotcFailed e out)), r', st')"
      "calls st' = calls st1 @
         [(knotcArgs c [''zone-begin'', normalizeZoneName zone], ExecOK o1),
          (knotcArgs c (zoneSetArgs (normalizeZoneName zone) r'), ExecOK o2),
          (knotcArgs c [''zone-commit'', normalizeZoneName zone], ExecFail e out)]"
  | (committed) o1 o2 o3 st' where
      "\<not> (\<exists>ex. probe = Inr ex \<and> sameValues ex r')"
      "CreateRecord pf c zone r st = (None, r', st')"
      "calls st' = calls st1 @
         [(knotcArgs c [''zone-begin'', normalizeZoneName zone], ExecOK o1),
          (knotcArgs c (zoneSetArgs (normalizeZoneName zone) r'), ExecOK o2),
          (knotcArgs c [''zone-commit'', normalizeZoneName zone], ExecOK o3)]"
proof (cases "\<exists>ex. probe = Inr ex \<and> sameValues ex r'")
  case True
  then obtain ex where ex: "probe = Inr ex" "sameValues ex r'" by blast
  then have "CreateRecord pf c zone r st = (None, r', st1)"
    by (simp add: CreateRecord_def al v g)
  with ex show thesis by (rule noop)
next
  case False
  let ?nz = "normalizeZoneName zone"
  from False have nf: "\<not> (case probe of Inr existingRecord \<Rightarrow> sameValues existingRecord r'
                                          | Inl err \<Rightarrow> False)"
    by (cases probe) auto
  have unf: "CreateRecord pf c zone r st =
      (case executeKnotc pf c [''zone-begin'', ?nz] st1 of
         (Inl err, st2) \<Rightarrow> (Some (FailedBegin zone err), r', st2)
       | (Inr out, st2) \<Rightarrow>
           (case executeKnotc pf c (zoneSetArgs ?nz r') st2 of
              (Inl err, st3) \<Rightarrow>
                let (ignored, st4) = executeKnotc pf c [''zone-abort'', ?nz] st3
                in (Some (FailedAdd zone err), r', st4)
            | (Inr out, st3) \<Rightarrow>
                (case executeKnotc pf c [''zone-commit'', ?nz] st3 of
                   (Inl err, st4) \<Rightarrow> (Some (FailedCommit zone err), r', st4)
                 | (Inr out, st4) \<Rightarrow> (None, r', st4))))"
    using nf by (simp add: CreateRecord_def al v g Let_def)
  show thesis
  proof (rule executeKnotc_cases [of pf c "[''zone-begin'', ?nz]" st1], goal_cases)
    case (2 e out w)
    show thesis
      by (rule begin_failed [OF False], simp add: unf 2, simp)
  next
    case b: (1 o1 w1)
    let ?st2 = "\<lparr>world = w1, calls = calls st1 @ [(knotcArgs c [''zone-begin'', ?nz], ExecOK o1)]\<rparr>"
    show thesis
    proof (rule executeKnotc_cases [of pf c "zoneSetArgs ?nz r'" ?st2], goal_cases)
      case s: (2 e out w2)
      let ?st3 = "\<lparr>world = w2, calls = calls st1 @
          [(knotcArgs c [''zone-begin'', ?nz], ExecOK o1),
           (knotcArgs c (zoneSetArgs ?nz r'), ExecFail e out)]\<rparr>"
      show thesis
      proof (rule executeKnotc_cases [of pf c "[''zone-abort'', ?nz]" ?st3], goal_cases)
        case (1 o3 w3)
        show thesis
          by (rule set_failed [OF False], simp add: unf b s 1, simp)
      next
        case (2 e3 o3 w3)
        show thesis
          by (rule set_failed [OF False], simp add: unf b s 2, simp)
      qed
    next
      case s: (1 o2 w2)
      let ?st3 = "\<lparr>world = w2, calls = calls st1 @
          [(knotcArgs c [''zone-begin'', ?nz], ExecOK o1),
           (knotcArgs c (zoneSetArgs ?nz r'), ExecOK o2)]\<rparr>"
      show thesis
      proof (rule executeKnotc_cases [of pf c "[''zone-commit'', ?nz]" ?st3], goal_cases)
        case (1 o3 w3)
        show thesis
          by (rule committed [OF False], simp add: unf b s 1, simp)
      next
        case (2 e3 o3 w3)
        show thesis
          by (rule commit_failed [OF False], simp add: unf b s 2, simp)
      qed
    qed
  qed
qed


lemma UpdateRecord_outcomes:
  assumes al: "IsZoneAllowed c zone"
    and g: "GetRecord pf c zone name ty st = (Inr ex, st1)"
    and v: "Validate (ParseIP pf) (applyUpdates upd ex) = (None, u)"
  obtains
    (begin_failed) e out st' where
      "UpdateRecord pf c zone name ty upd st = (Some (FailedBegin zone (KnotcFailed e out)), st')"
      "calls st' = calls st1 @ [(knotcArgs c [''zone-begin'', normalizeZoneName zone], ExecFail e out)]"
  | (unset_failed) o1 e out res st' where
      "UpdateRecord pf c zone name ty upd st = (Some (FailedRemoveOld zone (KnotcFailed e out)), st')"
      "calls st' = calls st1 @
         [(knotcArgs c [''zone-begin'', normalizeZoneName zone], ExecOK o1),
          (knotcArgs c [''zone-unset'', normalizeZoneName zone, ToKnotFormat ex], ExecFail e out),
          (knotcArgs c [''zone-abort'', normalizeZoneName zone], res)]"
  | (set_failed) o1 o2 e out res st' where
      "UpdateRecord pf c zone name ty upd st = (Some (FailedAddUpdated zone (KnotcFailed e out)), st')"
      "calls st' = calls st1 @
         [(knotcArgs c [''zone-begin'', normalizeZoneName zone], ExecOK o1),
          (knotcArgs c [''zone-unset'', normalizeZoneName zone, ToKnotFormat ex], ExecOK o2),
          (knotcArgs c (zoneSetArgs (normalizeZoneName zone) u), ExecFail e out),
          (knotcArgs c [''zone-abort'', normalizeZoneName zone], res)]"
  | (commit_failed) o1 o2 o3 e out st' where
      "UpdateRecord pf c zone name ty upd st = (Some (FailedCommit zone (KnotcFailed e out)), st')"
      "calls st' = calls st1 @
         [(knotcArgs c [''zone-begin'', normalizeZoneName zone], ExecOK o1),
          (knotcArgs c [''zone-unset'', normalizeZoneName zone, ToKnotFormat ex], ExecOK o2),
          (knotcArgs c (zoneSetArgs (normalizeZoneName zone) u), ExecOK o3),
          (knotcArgs c [''zone-commit'', normalizeZoneName zone], ExecFail e out)]"
  | (committed) o1 o2 o3 o4 st' where
      "UpdateRecord pf c zone name ty upd st = (None, st')"
      "calls st' = calls st1 @
         [(knotcArgs c [''zone-begin'', normalizeZoneName zone], ExecOK o1),
          (knotcArgs c [''zone-unset'', normalizeZoneName zone, ToKnotFormat ex], ExecOK o2),
          (knotcArgs c (zoneSetArgs (normalizeZoneName zone) u), ExecOK o3),
          (knotcArgs c [''zone-commit'', normalizeZoneName zone], ExecOK o4)]"
proof -
  let ?nz = "normalizeZoneName zone"
  let ?B = "(knotcArgs c [''zone-begin'', ?nz])"
  let ?U = "(knotcArgs c [''zone-unset'', ?nz, ToKnotFormat ex])"
  let ?S = "(knotcArgs c (zoneSetArgs ?nz u))"
  have unf: "UpdateRecord pf c zone name ty upd st =
      (case executeKnotc pf c [''zone-begin'', ?nz] st1 of
         (Inl err, st2) \<Rightarrow> (Some (FailedBegin zone err), st2)
       | (Inr out, st2) \<Rightarrow>
           (case executeKnotc pf c [''zone-unset'', ?nz, ToKnotFormat ex] st2 of
              (Inl err, st3) \<Rightarrow>
                let (ignored, st4) = executeKnotc pf c [''zone-abort'', ?nz] st3
                in (Some (FailedRemoveOld zone err), st4)
            | (Inr out, st3) \<Rightarrow>
                (case executeKnotc pf c (zoneSetArgs ?nz u) st3 of
                   (Inl err, st4) \<Rightarrow>
                     let (ignored, st5) = executeKnotc pf c [''zone-abort'', ?nz] st4
                     in (Some (FailedAddUpdated zone err), st5)
                 | (Inr out, st4) \<Rightarrow>
                     (case executeKnotc pf c [''zone-commit'', ?nz] st4 of
                        (Inl err, st5) \<Rightarrow> (Some (FailedCommit zone err), st5)
                      | (Inr out, st5) \<Rightarrow> (None, st5)))))"
    by (simp add: UpdateRecord_def al v g Let_def)
  show thesis
  proof (rule executeKnotc_cases [of pf c "[''zone-begin'', ?nz]" st1], goal_cases)
    case (2 e out w)
    show thesis
      by (rule begin_failed, simp add: unf 2, simp)
  next
    case b: (1 o1 w1)
    let ?st2 = "\<lparr>world = w1, calls = calls st1 @ [(?B, ExecOK o1)]\<rparr>"
    show thesis
    proof (rule executeKnotc_cases [of pf c "[''zone-unset'', ?nz, ToKnotFormat ex]" ?st2], goal_cases)
      case n: (2 e out w2)
      let ?st3 = "\<lparr>world = w2, calls = calls st1 @ [(?B, ExecOK o1), (?U, ExecFail e out)]\<rparr>"
      show thesis
      proof (rule executeKnotc_cases [of pf c "[''zone-abort'', ?nz]" ?st3], goal_cases)
        case (1 o3 w3)
        show thesis
          by (rule unset_failed, simp add: unf b n 1, simp)
      next
        case (2 e3 o3 w3)
        show thesis
          by (rule unset_failed, simp add: unf b n 2, simp)
      qed
    next
      case n: (1 o2 w2)
      let ?st3 = "\<lparr>world = w2, calls = calls st1 @ [(?B, ExecOK o1), (?U, ExecOK o2)]\<rparr>"
      show thesis
      proof (rule executeKnotc_cases [of pf c "zoneSetArgs ?nz u" ?st3], goal_cases)
        case s: (2 e out w3)
        let ?st4 = "\<lparr>world = w3, calls = calls st1 @
            [(?B, ExecOK o1), (?U, ExecOK o2), (?S, ExecFail e out)]\<rparr>"
        show thesis
        proof (rule executeKnotc_cases [of pf c "[''zone-abort'', ?nz]" ?st4], goal_cases)
          case (1 o4 w4)
          show thesis
            by (rule set_failed, simp add: unf b n s 1, simp)
        next
          case (2 e4 o4 w4)
          show thesis
            by (rule set_failed, simp add: unf b n s 2, simp)
        qed
      next
        case s: (1 o3 w3)
        let ?st4 = "\<lparr>world = w3, calls = calls st1 @
            [(?B, ExecOK o1), (?U, ExecOK o2), (?S, ExecOK o3)]\<rparr>"
        show thesis
        proof (rule executeKnotc_cases [of pf c "[''zone-commit'', ?nz]" ?st4], goal_cases)
          case (1 o4 w4)
          show thesis
            by (rule committed, simp add: unf b n s 1, simp)
        next
          case (2 e4 o4 w4)
          show thesis
            by (rule commit_failed, simp add: unf b n s 2, simp)
        qed
      qed
    qed
  qed
qed

lemma knotcArgs_inj [simp]: "knotcArgs c a = knotcArgs c b \<longleftrightarrow> a = b"
  by (simp add: knotcArgs_def)

lemma zoneSetArgs_hd: "\<exists>rest. zoneSetArgs nz r = ''zone-set'' # rest"
  by (simp add: zoneSetArgs_def)

lemma CreateRecord_set_failure:
  assumes run: "CreateRecord pf c zone r st = (err, r', st')"
    and bad: "(knotcArgs c (''zone-set'' # rest), ExecFail e out) \<in> set (issued st st')"
  shows "\<exists>res0 o1 res.
           issued st st' =
             [(knotcArgs c [''zone-read'', normalizeZoneName zone], res0),
              (knotcArgs c [''zone-begin'', normalizeZoneName zone], ExecOK o1),
              (knotcArgs c (''zone-set'' # rest), ExecFail e out),
              (knotcArgs c [''zone-abort'', normalizeZoneName zone], res)]
         \<and> err = Some (FailedAdd zone (KnotcFailed e out))"
proof -
  have al: "IsZoneAllowed c zone"
    using run bad by (auto simp: CreateRecord_def issued_def split: if_splits)
  obtain ve r1 where v0: "Validate (ParseIP pf) r = (ve, r1)" by (cases "Validate (ParseIP pf) r")
  have "ve = None"
    using run bad al v0 by (cases ve) (auto simp: CreateRecord_def issued_def)
  with v0 have v: "Validate (ParseIP pf) r = (None, r1)" by simp
  obtain probe st1 where g: "GetRecord pf c zone (Name r1) (Type r1) st = (probe, st1)"
    by (cases "GetRecord pf c zone (Name r1) (Type r1) st")
  from GetRecord_calls [OF al g] obtain res0 where
    c1: "calls st1 = calls st @ [(knotcArgs c [''zone-read'', normalizeZoneName zone], res0)]"
    by auto
  obtain rest' where zs: "zoneSetArgs (normalizeZoneName zone) r1 = ''zone-set'' # rest'"
    using zoneSetArgs_hd [of "normalizeZoneName zone" r1] by auto
  show ?thesis
  proof (rule CreateRecord_outcomes [OF al v g], goal_cases)
    case (1 ex)
    with run bad c1 show ?case by (auto simp: issued_def)
  next
    case (2 e2 out2 st2)
    with run bad c1 show ?case by (auto simp: issued_def)
  next
    case (3 o1 e3 out3 res st3)
    with run bad c1 zs show ?case by (auto simp: issued_def)
  next
    case (4 o1 o2 e4 out4 st4)
    with run bad c1 zs show ?case by (auto simp: issued_def)
  next
    case (5 o1 o2 o3 st5)
    with run bad c1 zs show ?case by (auto simp: issued_def)
  qed
qed


lemma UpdateRecord_early:
  assumes al: "IsZoneAllowed c zone"
    and g: "GetRecord pf c zone name ty st = (x, st1)"
    and early: "(\<exists>err. x = Inl err) \<or>
                (\<exists>ex ve u. x = Inr ex \<and> Validate (ParseIP pf) (applyUpdates upd ex) = (Some ve, u))"
  shows "\<exists>err. UpdateRecord pf c zone name ty upd st = (Some err, st1)"
  using al g early by (auto simp: UpdateRecord_def)

lemma UpdateRecord_set_failure:
  assumes run: "UpdateRecord pf c zone name ty upd st = (err, st')"
    and bad: "(knotcArgs c (''zone-set'' # rest), ExecFail e out) \<in> set (issued st st')"
  shows "\<exists>o0 o1 m o2 res.
           issued st st' =
             [(knotcArgs c [''zone-read'', normalizeZoneName zone], ExecOK o0),
              (knotcArgs c [''zone-begin'', normalizeZoneName zone], ExecOK o1),
              (knotcArgs c [''zone-unset'', normalizeZoneName zone, m], ExecOK o2),
              (knotcArgs c (''zone-set'' # rest), ExecFail e out),
              (knotcArgs c [''zone-abort'', normalizeZoneName zone], res)]
         \<and> err = Some (FailedAddUpdated zone (KnotcFailed e out))"
proof -
  have al: "IsZoneAllowed c zone"
    using run bad by (auto simp: UpdateRecord_def issued_def split: if_splits)
  obtain x st1 where g: "GetRecord pf c zone name ty st = (x, st1)"
    by (cases "GetRecord pf c zone name ty st")
  from GetRecord_calls [OF al g] obtain res0 where
    c1: "calls st1 = calls st @ [(knotcArgs c [''zone-read'', normalizeZoneName zone], res0)]"
    and ok: "\<forall>ex. x = Inr ex \<longrightarrow> (\<exists>out. res0 = ExecOK out)"
    by auto
  have late: "\<not> ((\<exists>err. x = Inl err) \<or>
                (\<exists>ex ve u. x = Inr ex \<and> Validate (ParseIP pf) (applyUpdates upd ex) = (Some ve, u)))"
  proof
    assume "(\<exists>err. x = Inl err) \<or>
                (\<exists>ex ve u. x = Inr ex \<and> Validate (ParseIP pf) (applyUpdates upd ex) = (Some ve, u))"
    from UpdateRecord_early [OF al g this] run have "st' = st1" by auto
    with bad c1 show False by (auto simp: issued_def)
  qed
  then obtain ex where x: "x = Inr ex" by (cases x) auto
  obtain ve u where v0: "Validate (ParseIP pf) (applyUpdates upd ex) = (ve, u)"
    by (cases "Validate (ParseIP pf) (applyUpdates upd ex)")
  with late x have v: "Validate (ParseIP pf) (applyUpdates upd ex) = (None, u)"
    by (cases ve) auto
  from ok x obtain o0 where r0: "res0 = ExecOK o0" by auto
  obtain rest' where zs: "zoneSetArgs (normalizeZoneName zone) u = ''zone-set'' # rest'"
    using zoneSetArgs_hd [of "normalizeZoneName zone" u] by auto
  show ?thesis
  proof (rule UpdateRecord_outcomes [OF al g [unfolded x] v], goal_cases)
    case (1 e1 out1 st2)
    with run bad c1 show ?case by (auto simp: issued_def)
  next
    case (2 o1 e2 out2 res st2)
    with run bad c1 show ?case by (auto simp: issued_def)
  next
    case (3 o1 o2 e3 out3 res st2)
    with run bad c1 zs r0 show ?case by (auto simp: issued_def)
  next
    case (4 o1 o2 o3 e4 out4 st2)
    with run bad c1 zs show ?case by (auto simp: issued_def)
  next
    case (5 o1 o2 o3 o4 st2)
    with run bad c1 zs show ?case by (auto simp: issued_def)
  qed
qed

text \<open>
  C8. In \<open>CreateRecord\<close> and in \<open>UpdateRecord\<close>, if the \<open>zone-set\<close> command fails, then
  \<open>zone-begin\<close> had succeeded, the \<open>zone-abort\<close> command is issued next and is the last
  command of the operation, and the error returned is the one of the \<open>zone-set\<close> step,
  whatever the result of \<open>zone-abort\<close> is.
\<close>

theorem set_failure_aborts:
  "(CreateRecord pf c zone r st = (err, r', st')
      \<and> (knotcArgs c (''zone-set'' # rest), ExecFail e out) \<in> set (issued st st')
    \<longrightarrow> (\<exists>res0 o1 res.
           issued st st' =
             [(knotcArgs c [''zone-read'', normalizeZoneName zone], res0),
              (knotcArgs c [''zone-begin'', normalizeZoneName zone], ExecOK o1),
              (knotcArgs c (''zone-set'' # rest), ExecFail e out),
              (knotcArgs c [''zone-abort'', normalizeZoneName zone], res)]
         \<and> err = Some (FailedAdd zone (KnotcFailed e out))))
   \<and> (UpdateRecord pf c zone name ty upd st = (uerr, ust')
      \<and> (knotcArgs c (''zone-set'' # rest), ExecFail e out) \<in> set (issued st ust')
    \<longrightarrow> (\<exists>o0 o1 m o2 res.
           issued st ust' =
             [(knotcArgs c [''zone-read'', normalizeZoneName zone], ExecOK o0),
              (knotcArgs c [''zone-begin'', normalizeZoneName zone], ExecOK o1),
              (knotcArgs c [''zone-unset'', normalizeZoneName zone, m], ExecOK o2),
              (knotcArgs c (''zone-set'' # rest), ExecFail e out),
              (knotcArgs c [''zone-abort'', normalizeZoneName zone], res)]
         \<and> uerr = Some (FailedAddUpdated zone (KnotcFailed e out))))"
  using CreateRecord_set_failure [of pf c zone r st err r' st' rest e out]
        UpdateRecord_set_failure [of pf c zone name ty upd st uerr ust' rest e out]
  by blast

theorem set_failure_aborts_witness:
  "CreateRecord scriptedPlatform exampleClient ''example.com''
     \<lparr>Name = ''test-vm'', Type = ''A'', TTL = 300, Data = ''192.168.1.100'', Priority = None\<rparr>
     (start [ExecOK [], ExecOK [], ExecFail ''exit status 1'' ''set failed'',
             ExecFail ''exit status 1'' ''abort failed''])
   = (Some (FailedAdd ''example.com'' (KnotcFailed ''exit status 1'' ''set failed'')),
      \<lparr>Name = ''test-vm'', Type = ''A'', TTL = 300, Data = ''192.168.1.100'', Priority = None\<rparr>,
      \<lparr>world = [],
       calls =
         [(knotcArgs exampleClient [''zone-read'', ''example.com.''], ExecOK []),
          (knotcArgs exampleClient [''zone-begin'', ''example.com.''], ExecOK []),
          (knotcArgs exampleClient
             [''zone-set'', ''example.com.'', ''test-vm'', ''300'', ''A'', ''192.168.1.100''],
           ExecFail ''exit status 1'' ''set failed''),
          (knotcArgs exampleClient [''zone-abort'', ''example.com.''],
           ExecFail ''exit status 1'' ''abort failed'')]\<rparr>)
   \<and> UpdateRecord scriptedPlatform exampleClient ''example.com'' ''www'' ''CNAME''
     \<lparr>updTTL = Some 600, updData = None, updPriority = None\<rparr>
     (start [ExecOK ''www 300 CNAME host.'', ExecOK [], ExecOK [],
             ExecFail ''exit status 1'' ''set failed'',
             ExecFail ''exit status 1'' ''abort failed''])
   = (Some (FailedAddUpdated ''example.com'' (KnotcFailed ''exit status 1'' ''set failed'')),
      \<lparr>world = [],
       calls =
         [(knotcArgs exampleClient [''zone-read'', ''example.com.''], ExecOK ''www 300 CNAME host.''),
          (knotcArgs exampleClient [''zone-begin'', ''example.com.''], ExecOK []),
          (knotcArgs exampleClient [''zone-unset'', ''example.com.'', ''www 300 CNAME host.''],
           ExecOK []),
          (knotcArgs exampleClient
             [''zone-set'', ''example.com.'', ''www'', ''600'', ''CNAME'', ''host.''],
           ExecFail ''exit status 1'' ''set failed''),
          (knotcArgs exampleClient [''zone-abort'', ''example.com.''],
           ExecFail ''exit status 1'' ''abort failed'')]\<rparr>)"
  (is "?create = (?cerr, ?crec, ?cst) \<and> ?update = (?uerr, ?ust)")
proof -
  let ?s1 = "start [ExecOK [], ExecOK [], ExecFail ''exit status 1'' ''set failed'',
             ExecFail ''exit status 1'' ''abort failed'']"
  let ?s2 = "start [ExecOK ''www 300 CNAME host.'', ExecOK [], ExecOK [],
             ExecFail ''exit status 1'' ''set failed'',
             ExecFail ''exit status 1'' ''abort failed'']"
  have crun: "?create = (?cerr, ?crec, ?cst)" by code_simp
  have urun: "?update = (?uerr, ?ust)" by code_simp
  have cbad: "(knotcArgs exampleClient
             (''zone-set'' # [''example.com.'', ''test-vm'', ''300'', ''A'', ''192.168.1.100'']),
           ExecFail ''exit status 1'' ''set failed'') \<in> set (issued ?s1 ?cst)"
    by (simp add: issued_def start_def)
  have ubad: "(knotcArgs exampleClient
             (''zone-set'' # [''example.com.'', ''www'', ''600'', ''CNAME'', ''host.'']),
           ExecFail ''exit status 1'' ''set failed'') \<in> set (issued ?s2 ?ust)"
    by (simp add: issued_def start_def)
  have "?cerr = Some (FailedAdd ''example.com'' (KnotcFailed ''exit status 1'' ''set failed''))"
    using set_failure_aborts [THEN conjunct1, THEN mp, OF conjI, OF crun cbad] by simp
  moreover
  have "?uerr = Some (FailedAddUpdated ''example.com'' (KnotcFailed ''exit status 1'' ''set failed''))"
    using set_failure_aborts [THEN conjunct2, THEN mp, OF conjI, OF urun ubad] by simp
  ultimately show ?thesis using crun urun by simp
qed

text \<open>
  C2. When the \<open>zone-commit\<close> command fails, each of the three mutating operations returns
  the error of the commit step right away: the last command issued is the failed
  \<open>zone-commit\<close>, and no \<open>zone-abort\<close> follows it. The runs below are those of
  \<open>CreateRecord\<close>, \<open>UpdateRecord\<close> and \<open>DeleteRecord\<close> against a control plane that accepts
  every command up to the commit and rejects the commit.
\<close>

theorem commit_failure_issues_no_abort:
  "CreateRecord scriptedPlatform exampleClient ''example.com''
     \<lparr>Name = ''test-vm'', Type = ''A'', TTL = 300, Data = ''192.168.1.100'', Priority = None\<rparr>
     (start [ExecOK [], ExecOK [], ExecOK [], ExecFail ''exit status 1'' ''commit failed''])
   = (Some (FailedCommit ''example.com'' (KnotcFailed ''exit status 1'' ''commit failed'')),
      \<lparr>Name = ''test-vm'', Type = ''A'', TTL = 300, Data = ''192.168.1.100'', Priority = None\<rparr>,
      \<lparr>world = [],
       calls =
         [(knotcArgs exampleClient [''zone-read'', ''example.com.''], ExecOK []),
          (knotcArgs exampleClient [''zone-begin'', ''example.com.''], ExecOK []),
          (knotcArgs exampleClient
             [''zone-set'', ''example.com.'', ''test-vm'', ''300'', ''A'', ''192.168.1.100''],
           ExecOK []),
          (knotcArgs exampleClient [''zone-commit'', ''example.com.''],
           ExecFail ''exit status 1'' ''commit failed'')]\<rparr>)
   \<and> UpdateRecord scriptedPlatform exampleClient ''example.com'' ''www'' ''CNAME''
     \<lparr>updTTL = Some 600, updData = None, updPriority = None\<rparr>
     (start [ExecOK ''www 300 CNAME host.'', ExecOK [], ExecOK [], ExecOK [],
             ExecFail ''exit status 1'' ''commit failed''])
   = (Some (FailedCommit ''example.com'' (KnotcFailed ''exit status 1'' ''commit failed'')),
      \<lparr>world = [],
       calls =
         [(knotcArgs exampleClient [''zone-read'', ''example.com.''], ExecOK ''www 300 CNAME host.''),
          (knotcArgs exampleClient [''zone-begin'', ''example.com.''], ExecOK []),
          (knotcArgs exampleClient [''zone-unset'', ''example.com.'', ''www 300 CNAME host.''],
           ExecOK []),
          (knotcArgs exampleClient
             [''zone-set'', ''example.com.'', ''www'', ''600'', ''CNAME'', ''host.''],
           ExecOK []),
          (knotcArgs exampleClient [''zone-commit'', ''example.com.''],
           ExecFail ''exit status 1'' ''commit failed'')]\<rparr>)
   \<and> DeleteRecord scriptedPlatform exampleClient ''example.com'' ''www'' ''CNAME''
     (start [ExecOK ''www 300 CNAME host.'', ExecOK [], ExecOK [],
             ExecFail ''exit status 1'' ''commit failed''])
   = (Some (FailedCommit ''example.com'' (KnotcFailed ''exit status 1'' ''commit failed'')),
      \<lparr>world = [],
       calls =
         [(knotcArgs exampleClient [''zone-read'', ''example.com.''], ExecOK ''www 300 CNAME host.''),
          (knotcArgs exampleClient [''zone-begin'', ''example.com''], ExecOK []),
          (knotcArgs exampleClient [''zone-unset'', ''example.com'', ''www CNAME''], ExecOK []),
          (knotcArgs exampleClient [''zone-commit'', ''example.com''],
           ExecFail ''exit status 1'' ''commit failed'')]\<rparr>)"
  by code_simp

lemma issued_append: "calls st' = calls st @ xs \<Longrightarrow> issued st st' = xs"
  by (simp add: issued_def)

lemma sameValues_eq:
  "sameValues ex r \<longleftrightarrow> TTL ex = TTL r \<and> Data ex = Data r \<and> Priority ex = Priority r"
  by (cases "Priority ex"; cases "Priority r") (auto simp: sameValues_def)

lemma CreateRecord_noop:
  assumes al: "IsZoneAllowed c zone" and v: "Validate (ParseIP pf) r = (None, r')"
    and g: "GetRecord pf c zone (Name r') (Type r') st = (Inr ex, st1)"
    and same: "TTL ex = TTL r' \<and> Data ex = Data r' \<and> Priority ex = Priority r'"
  shows "CreateRecord pf c zone r st = (None, r', st1)
         \<and> (\<exists>out. issued st st1 =
                     [(knotcArgs c [''zone-read'', normalizeZoneName zone], ExecOK out)])"
proof -
  from same have "sameValues ex r'" by (simp add: sameValues_eq)
  then have "CreateRecord pf c zone r st = (None, r', st1)"
    by (simp add: CreateRecord_def al v g)
  moreover from GetRecord_calls [OF al g] obtain out where
    "calls st1 = calls st @ [(knotcArgs c [''zone-read'', normalizeZoneName zone], ExecOK out)]"
    by auto
  ultimately show ?thesis by (auto simp: issued_append)
qed

lemma CreateRecord_created:
  assumes first: "CreateRecord pf c zone r st = (None, r', st1)"
    and changed: "(knotcArgs c (''zone-set'' # rest), res) \<in> set (issued st st1)"
  shows "IsZoneAllowed c zone \<and> Validate (ParseIP pf) r = (None, r')
         \<and> (\<exists>res0 o1 o2 o3. calls st1 = calls st @
               [(knotcArgs c [''zone-read'', normalizeZoneName zone], res0),
                (knotcArgs c [''zone-begin'', normalizeZoneName zone], ExecOK o1),
                (knotcArgs c (zoneSetArgs (normalizeZoneName zone) r'), ExecOK o2),
                (knotcArgs c [''zone-commit'', normalizeZoneName zone], ExecOK o3)])"
proof -
  have al: "IsZoneAllowed c zone"
    using first by (auto simp: CreateRecord_def split: if_splits)
  obtain ve r1 where v0: "Validate (ParseIP pf) r = (ve, r1)" by (cases "Validate (ParseIP pf) r")
  have "ve = None"
    using first al v0 by (cases ve) (auto simp: CreateRecord_def)
  with v0 have v: "Validate (ParseIP pf) r = (None, r1)" by simp
  obtain probe st0 where g: "GetRecord pf c zone (Name r1) (Type r1) st = (probe, st0)"
    by (cases "GetRecord pf c zone (Name r1) (Type r1) st")
  from GetRecord_calls [OF al g] obtain res0 where
    c1: "calls st0 = calls st @ [(knotcArgs c [''zone-read'', normalizeZoneName zone], res0)]"
    by auto
  show ?thesis
  proof (rule CreateRecord_outcomes [OF al v g], goal_cases)
    case (1 ex)
    with first changed c1 show ?case by (auto simp: issued_def)
  next
    case (2 e2 out2 st2)
    with first show ?case by simp
  next
    case (3 o1 e3 out3 res st3)
    with first show ?case by simp
  next
    case (4 o1 o2 e4 out4 st4)
    with first show ?case by simp
  next
    case (5 o1 o2 o3 st5)
    with first al v c1 show ?case by auto
  qed
qed

lemma CreateRecord_twice:
  assumes first: "CreateRecord pf c zone r st = (None, r', st1)"
    and changed: "(knotcArgs c (''zone-set'' # rest), res) \<in> set (issued st st1)"
    and g: "GetRecord pf c zone (Name r') (Type r') st1 = (Inr ex, st2)"
    and same: "TTL ex = TTL r' \<and> Data ex = Data r' \<and> Priority ex = Priority r'"
  shows "CreateRecord pf c zone r st1 = (None, r', st2)
         \<and> (\<exists>res0 o1 o2 o3 o4. issued st st2 =
               [(knotcArgs c [''zone-read'', normalizeZoneName zone], res0),
                (knotcArgs c [''zone-begin'', normalizeZoneName zone], ExecOK o1),
                (knotcArgs c (zoneSetArgs (normalizeZoneName zone) r'), ExecOK o2),
                (knotcArgs c [''zone-commit'', normalizeZoneName zone], ExecOK o3),
                (knotcArgs c [''zone-read'', normalizeZoneName zone], ExecOK o4)])"
proof -
  from CreateRecord_created [OF first changed] obtain res0 o1 o2 o3 where
    al: "IsZoneAllowed c zone" and v: "Validate (ParseIP pf) r = (None, r')"
    and c1: "calls st1 = calls st @
               [(knotcArgs c [''zone-read'', normalizeZoneName zone], res0),
                (knotcArgs c [''zone-begin'', normalizeZoneName zone], ExecOK o1),
                (knotcArgs c (zoneSetArgs (normalizeZoneName zone) r'), ExecOK o2),
                (knotcArgs c [''zone-commit'', normalizeZoneName zone], ExecOK o3)]"
    by auto
  from CreateRecord_noop [OF al v g same] obtain o4 where
    second: "CreateRecord pf c zone r st1 = (None, r', st2)"
    and i2: "issued st1 st2 = [(knotcArgs c [''zone-read'', normalizeZoneName zone], ExecOK o4)]"
    by auto
  from GetRecord_calls [OF al g] i2 have
    c2: "calls st2 = calls st1 @ [(knotcArgs c [''zone-read'', normalizeZoneName zone], ExecOK o4)]"
    by (auto simp: issued_def)
  have "issued st st2 =
               [(knotcArgs c [''zone-read'', normalizeZoneName zone], res0),
                (knotcArgs c [''zone-begin'', normalizeZoneName zone], ExecOK o1),
                (knotcArgs c (zoneSetArgs (normalizeZoneName zone) r'), ExecOK o2),
                (knotcArgs c [''zone-commit'', normalizeZoneName zone], ExecOK o3),
                (knotcArgs c [''zone-read'', normalizeZoneName zone], ExecOK o4)]"
    by (rule issued_append) (simp add: c1 c2)
  with second show ?thesis by blast
qed

text \<open>
  C3. If the probe of \<open>CreateRecord\<close> finds a record with the name and type of the
  validated record whose TTL, data and priority equal those of the validated record,
  \<open>CreateRecord\<close> returns success and the only command it has issued is the \<open>zone-read\<close> of
  the probe: no \<open>zone-begin\<close>, \<open>zone-set\<close> or \<open>zone-commit\<close>. Hence, when a call of
  \<open>CreateRecord\<close> has created a record (it succeeded and issued a \<open>zone-set\<close>) and the
  probe of a second call with the same field values finds that record, the second call
  returns success, and the two calls together have issued one \<open>zone-begin\<close>, one
  \<open>zone-set\<close> and one \<open>zone-commit\<close>, each successful, between the two reads.
\<close>

theorem CreateRecord_idempotent:
  "(IsZoneAllowed c zone \<and> Validate (ParseIP pf) r = (None, r')
      \<and> GetRecord pf c zone (Name r') (Type r') st = (Inr ex, st1)
      \<and> TTL ex = TTL r' \<and> Data ex = Data r' \<and> Priority ex = Priority r'
    \<longrightarrow> CreateRecord pf c zone r st = (None, r', st1)
        \<and> (\<exists>out. issued st st1 =
                    [(knotcArgs c [''zone-read'', normalizeZoneName zone], ExecOK out)]))
   \<and> (CreateRecord pf c zone r st = (None, r', st1)
      \<and> (knotcArgs c (''zone-set'' # rest), res) \<in> set (issued st st1)
      \<and> GetRecord pf c zone (Name r') (Type r') st1 = (Inr ex2, st2)
      \<and> TTL ex2 = TTL r' \<and> Data ex2 = Data r' \<and> Priority ex2 = Priority r'
    \<longrightarrow> CreateRecord pf c zone r st1 = (None, r', st2)
        \<and> (\<exists>res0 o1 o2 o3 o4. issued st st2 =
               [(knotcArgs c [''zone-read'', normalizeZoneName zone], res0),
                (knotcArgs c [''zone-begin'', normalizeZoneName zone], ExecOK o1),
                (knotcArgs c (zoneSetArgs (normalizeZoneName zone) r'), ExecOK o2),
                (knotcArgs c [''zone-commit'', normalizeZoneName zone], ExecOK o3),
                (knotcArgs c [''zone-read'', normalizeZoneName zone], ExecOK o4)]))"
proof (intro conjI impI)
  assume "IsZoneAllowed c zone \<and> Validate (ParseIP pf) r = (None, r')
      \<and> GetRecord pf c zone (Name r') (Type r') st = (Inr ex, st1)
      \<and> TTL ex = TTL r' \<and> Data ex = Data r' \<and> Priority ex = Priority r'"
  then show "CreateRecord pf c zone r st = (None, r', st1)"
    and "\<exists>out. issued st st1 =
                    [(knotcArgs c [''zone-read'', normalizeZoneName zone], ExecOK out)]"
    using CreateRecord_noop [of c zone pf r r' st ex st1] by simp_all
next
  assume "CreateRecord pf c zone r st = (None, r', st1)
      \<and> (knotcArgs c (''zone-set'' # rest), res) \<in> set (issued st st1)
      \<and> GetRecord pf c zone (Name r') (Type r') st1 = (Inr ex2, st2)
      \<and> TTL ex2 = TTL r' \<and> Data ex2 = Data r' \<and> Priority ex2 = Priority r'"
  then show "CreateRecord pf c zone r st1 = (None, r', st2)"
    and "\<exists>res0 o1 o2 o3 o4. issued st st2 =
               [(knotcArgs c [''zone-read'', normalizeZoneName zone], res0),
                (knotcArgs c [''zone-begin'', normalizeZoneName zone], ExecOK o1),
                (knotcArgs c (zoneSetArgs (normalizeZoneName zone) r'), ExecOK o2),
                (knotcArgs c [''zone-commit'', normalizeZoneName zone], ExecOK o3),
                (knotcArgs c [''zone-read'', normalizeZoneName zone], ExecOK o4)]"
    using CreateRecord_twice [of pf c zone r st r' st1 rest res ex2 st2] by simp_all
qed

theorem CreateRecord_idempotent_witness:
  "CreateRecord scriptedPlatform exampleClient ''example.com''
     \<lparr>Name = ''test-vm'', Type = ''A'', TTL = 300, Data = ''192.168.1.100'', Priority = None\<rparr>
     (start [ExecOK [], ExecOK [], ExecOK [], ExecOK [], ExecOK ''test-vm 300 A 192.168.1.100''])
   = (None,
      \<lparr>Name = ''test-vm'', Type = ''A'', TTL = 300, Data = ''192.168.1.100'', Priority = None\<rparr>,
      \<lparr>world = [ExecOK ''test-vm 300 A 192.168.1.100''],
       calls =
         [(knotcArgs exampleClient [''zone-read'', ''example.com.''], ExecOK []),
          (knotcArgs exampleClient [''zone-begin'', ''example.com.''], ExecOK []),
          (knotcArgs exampleClient
             [''zone-set'', ''example.com.'', ''test-vm'', ''300'', ''A'', ''192.168.1.100''],
           ExecOK []),
          (knotcArgs exampleClient [''zone-commit'', ''example.com.''], ExecOK [])]\<rparr>)
   \<and> CreateRecord scriptedPlatform exampleClient ''example.com''
     \<lparr>Name = ''test-vm'', Type = ''A'', TTL = 300, Data = ''192.168.1.100'', Priority = None\<rparr>
     \<lparr>world = [ExecOK ''test-vm 300 A 192.168.1.100''],
       calls =
         [(knotcArgs exampleClient [''zone-read'', ''example.com.''], ExecOK []),
          (knotcArgs exampleClient [''zone-begin'', ''example.com.''], ExecOK []),
          (knotcArgs exampleClient
             [''zone-set'', ''example.com.'', ''test-vm'', ''300'', ''A'', ''192.168.1.100''],
           ExecOK []),
          (knotcArgs exampleClient [''zone-commit'', ''example.com.''], ExecOK [])]\<rparr>
   = (None,
      \<lparr>Name = ''test-vm'', Type = ''A'', TTL = 300, Data = ''192.168.1.100'', Priority = None\<rparr>,
      \<lparr>world = [],
       calls =
         [(knotcArgs exampleClient [''zone-read'', ''example.com.''], ExecOK []),
          (knotcArgs exampleClient [''zone-begin'', ''example.com.''], ExecOK []),
          (knotcArgs exampleClient
             [''zone-set'', ''example.com.'', ''test-vm'', ''300'', ''A'', ''192.168.1.100''],
           ExecOK []),
          (knotcArgs exampleClient [''zone-commit'', ''example.com.''], ExecOK []),
          (knotcArgs exampleClient [''zone-read'', ''example.com.''],
           ExecOK ''test-vm 300 A 192.168.1.100'')]\<rparr>)"
  (is "CreateRecord ?pf ?c ?zone ?r ?st0 = (None, ?r, ?st1) \<and> CreateRecord ?pf ?c ?zone ?r ?st1 = (None, ?r, ?st2)")
proof -
  have first: "CreateRecord ?pf ?c ?zone ?r ?st0 = (None, ?r, ?st1)"
    by code_simp
  have changed: "(knotcArgs ?c
      (''zone-set'' # [''example.com.'', ''test-vm'', ''300'', ''A'', ''192.168.1.100'']), ExecOK [])
      \<in> set (issued ?st0 ?st1)"
    by (simp add: issued_def start_def)
  have probe: "GetRecord ?pf ?c ?zone (Name ?r) (Type ?r) ?st1 = (Inr ?r, ?st2)"
    by code_simp
  have "CreateRecord ?pf ?c ?zone ?r ?st1 = (None, ?r, ?st2)"
    using CreateRecord_idempotent
      [where pf = ?pf and c = ?c and zone = ?zone and r = ?r and r' = ?r and st = ?st0
         and ?st1.0 = ?st1 and ?st2.0 = ?st2 and ?ex2.0 = ?r
         and rest = "[''example.com.'', ''test-vm'', ''300'', ''A'', ''192.168.1.100'']"
         and res = "ExecOK []",
       THEN conjunct2]
      first changed probe
    by simp
  with first show ?thesis by simp
qed

subsection \<open>The record removed and the record set by an update\<close>















end
